theory Spec2Isabelle
  imports Main
begin

section \<open>Python values the loaders and ETL classes work on\<close>

text \<open>
  The exceptions the modelled code can raise. Every \<^verbatim>\<open>raise\<close> of the source (and of the
  library calls it makes) is a value \<open>Inl e\<close> of a result type \<open>py_error + 'a\<close>.
\<close>

datatype py_error = TypeError | ValueError | KeyError | IntegrityError

subsection \<open>\<^verbatim>\<open>datetime.date\<close>\<close>

text \<open>
  A \<^verbatim>\<open>datetime.date\<close> is a (year, month, day) triple. Python only ever builds valid ones
  (\<open>valid_date\<close>: year 1..9999, a day that exists in the month); the constructor
  \<^verbatim>\<open>date(y, m, d)\<close> raises ValueError otherwise (\<open>mk_date\<close>).
\<close>

record date =
  year :: nat
  month :: nat
  day :: nat

definition is_leap :: "nat \<Rightarrow> bool" where
  "is_leap y = (y mod 4 = 0 \<and> (y mod 100 \<noteq> 0 \<or> y mod 400 = 0))"

definition days_in_month :: "nat \<Rightarrow> nat \<Rightarrow> nat" where
  "days_in_month y m =
     (if m = 2 then (if is_leap y then 29 else 28)
      else if m = 4 \<or> m = 6 \<or> m = 9 \<or> m = 11 then 30 else 31)"

definition valid_date :: "date \<Rightarrow> bool" where
  "valid_date d =
     (1 \<le> year d \<and> year d \<le> 9999 \<and> 1 \<le> month d \<and> month d \<le> 12 \<and>
      1 \<le> day d \<and> day d \<le> days_in_month (year d) (month d))"

definition mk_date :: "nat \<Rightarrow> nat \<Rightarrow> nat \<Rightarrow> py_error + date" where
  "mk_date y m d =
     (let r = \<lparr>year = y, month = m, day = d\<rparr>
      in if valid_date r then Inr r else Inl ValueError)"

text \<open>Comparison of dates is the comparison of the triples.\<close>

definition date_le :: "date \<Rightarrow> date \<Rightarrow> bool" where
  "date_le a b =
     (year a < year b \<or>
      (year a = year b \<and> (month a < month b \<or> (month a = month b \<and> day a \<le> day b))))"

text \<open>
  \<^verbatim>\<open>date.toordinal()\<close>: days since 0001-01-01 (which is day 1), computed as CPython
  does (the table of days before each month, one more after February of a leap year), and
  the difference \<^verbatim>\<open>(a - b).days\<close> of two dates. Only valid dates (month 1..12) are ever
  passed.
\<close>

definition days_before_year :: "nat \<Rightarrow> nat" where
  "days_before_year y =
     (let p = y - 1 in p * 365 + p div 4 - p div 100 + p div 400)"

definition days_before_month :: "nat \<Rightarrow> nat \<Rightarrow> nat" where
  "days_before_month y m =
     [0, 31, 59, 90, 120, 151, 181, 212, 243, 273, 304, 334] ! (m - 1) +
     (if m > 2 \<and> is_leap y then 1 else 0)"

definition toordinal :: "date \<Rightarrow> nat" where
  "toordinal d = days_before_year (year d) + days_before_month (year d) (month d) + day d"

definition date_diff_days :: "date \<Rightarrow> date \<Rightarrow> int" where
  "date_diff_days a b = int (toordinal a) - int (toordinal b)"

text \<open>\<^verbatim>\<open>date.weekday()\<close>: Monday is 0.\<close>

definition weekday :: "date \<Rightarrow> nat" where
  "weekday d = (toordinal d + 6) mod 7"


section \<open>\<^verbatim>\<open>VencimentoETL._calculate_vencimento_metrics\<close> (etl.py)\<close>

text \<open>
  The data frame is a list of rows. The input row carries the column
  \<^verbatim>\<open>dataVencimento\<close> after \<^verbatim>\<open>parse_date\<close> (a date or None); the output row adds the derived
  columns. A missing \<^verbatim>\<open>dias_para_vencimento\<close> is None/NaN: pandas' vectorised comparisons
  give False on it (\<open>na_cmp\<close>), and \<^verbatim>\<open>categorize_status\<close> tests \<^verbatim>\<open>pd.isna\<close> first.
  \<^verbatim>\<open>date.today()\<close> is the parameter \<open>today\<close>.
\<close>

record venc_row =
  dataVencimento :: "date option"
  dias_para_vencimento :: "int option"
  vencido :: bool
  critico :: bool
  alerta :: bool
  status_vencimento :: string

definition na_cmp :: "(int \<Rightarrow> bool) \<Rightarrow> int option \<Rightarrow> bool" where
  "na_cmp p v = (case v of None \<Rightarrow> False | Some n \<Rightarrow> p n)"

definition categorize_status :: "int option \<Rightarrow> string" where
  "categorize_status days =
     (case days of
        None \<Rightarrow> ''SEM_DATA''
      | Some n \<Rightarrow>
          if n < 0 then ''VENCIDO''
          else if n \<le> 15 then ''CRITICO''
          else if n \<le> 30 then ''ATENCAO''
          else if n \<le> 60 then ''ALERTA''
          else ''OK'')"

definition dias_para :: "date \<Rightarrow> date option \<Rightarrow> int option" where
  "dias_para today venc_date =
     (case venc_date of None \<Rightarrow> None | Some v \<Rightarrow> Some (date_diff_days v today))"

definition vencimento_metrics_row :: "date \<Rightarrow> date option \<Rightarrow> venc_row" where
  "vencimento_metrics_row today venc_date =
     (let dias = dias_para today venc_date
      in \<lparr>dataVencimento = venc_date,
          dias_para_vencimento = dias,
          vencido = na_cmp (\<lambda>n. n < 0) dias,
          critico = (na_cmp (\<lambda>n. n \<ge> 0) dias \<and> na_cmp (\<lambda>n. n \<le> 30) dias),
          alerta = (na_cmp (\<lambda>n. n > 30) dias \<and> na_cmp (\<lambda>n. n \<le> 60) dias),
          status_vencimento = categorize_status dias\<rparr>)"

definition calculate_vencimento_metrics :: "date \<Rightarrow> date option list \<Rightarrow> venc_row list" where
  "calculate_vencimento_metrics today data = map (vencimento_metrics_row today) data"


section \<open>\<^verbatim>\<open>DataValidator\<close> (etl.py)\<close>

subsection \<open>Characters, digits and \<^verbatim>\<open>str(int)\<close>\<close>

text \<open>
  Strings are lists of 8-bit characters; \<open>is_digit\<close> is the class \<^verbatim>\<open>[0-9]\<close>, which is what
  the pattern \<^verbatim>\<open>\d\<close> matches on such a string (a Python \<^verbatim>\<open>str\<close> can also hold non-ASCII
  decimal digits, which this string type cannot). \<open>int_of_char\<close> is \<^verbatim>\<open>int(digit)\<close> for a
  digit character, \<open>str_int\<close> is \<^verbatim>\<open>str(n)\<close>, the decimal rendering an f-string uses.
\<close>

definition is_digit :: "char \<Rightarrow> bool" where
  "is_digit c = (c \<in> set ''0123456789'')"

definition int_of_char :: "char \<Rightarrow> int" where
  "int_of_char c = of_char c - 48"

definition digit_char :: "nat \<Rightarrow> char" where
  "digit_char n = ''0123456789'' ! n"

fun nat_to_str :: "nat \<Rightarrow> string" where
  "nat_to_str n = (if n < 10 then [digit_char n] else nat_to_str (n div 10) @ [digit_char (n mod 10)])"

declare nat_to_str.simps [simp del]

definition str_int :: "int \<Rightarrow> string" where
  "str_int i = (if i < 0 then CHR ''-'' # nat_to_str (nat (- i)) else nat_to_str (nat i))"

subsection \<open>\<^verbatim>\<open>validate_cpf\<close>\<close>

text \<open>
  \<^verbatim>\<open>re.sub(r'\D', '', cpf)\<close> keeps the digits (\<open>filter is_digit\<close>); \<^verbatim>\<open>cpf[:9]\<close> is
  \<open>take 9\<close>, \<^verbatim>\<open>cpf[-2:]\<close> the last two characters, \<^verbatim>\<open>cpf[0] * 11\<close> is \<open>replicate 11\<close>.
  The argument is optional: \<^verbatim>\<open>not cpf\<close> holds for None and for the empty string.
\<close>

definition calculate_digit :: "string \<Rightarrow> int" where
  "calculate_digit cpf_partial =
     (let total = sum_list (map (\<lambda>(i, digit). int_of_char digit * (int (length cpf_partial) + 1 - int i))
                                (enumerate 0 cpf_partial));
          remainder = total mod 11
      in if remainder < 2 then 0 else 11 - remainder)"

definition validate_cpf :: "string option \<Rightarrow> bool" where
  "validate_cpf cpf0 =
     (case cpf0 of
        None \<Rightarrow> False
      | Some raw \<Rightarrow>
          if raw = [] then False
          else let cpf = filter is_digit raw in
            if length cpf \<noteq> 11 then False
            else if cpf = replicate 11 (hd cpf) then False
            else let first_digit = calculate_digit (take 9 cpf);
                     second_digit = calculate_digit (take 10 cpf)
                 in drop (length cpf - 2) cpf = str_int first_digit @ str_int second_digit)"


text \<open>
  The rule as the specification words it, on the digit values: exactly 11 digits after
  stripping, not all identical, and each check digit (the weighted sum of the digits before
  it, weights descending to 2, taken mod 11; a remainder below 2 gives 0, otherwise 11 minus
  the remainder) equal to the trailing digit it guards.
\<close>

definition weighted_check_digit :: "int list \<Rightarrow> int" where
  "weighted_check_digit ds =
     (let r = sum_list (map2 (*) ds (map int (rev [2..<length ds + 2]))) mod 11
      in if r < 2 then 0 else 11 - r)"

definition national_id_ok :: "string \<Rightarrow> bool" where
  "national_id_ok s =
     (let ds = map int_of_char (filter is_digit s)
      in length ds = 11 \<and> \<not> list_all (\<lambda>d. d = hd ds) ds \<and>
         weighted_check_digit (take 9 ds) = ds ! 9 \<and>
         weighted_check_digit (take 10 ds) = ds ! 10)"


section \<open>\<^verbatim>\<open>DataLoader.load_dim_tempo\<close> (db.py) and the table \<^verbatim>\<open>dim_tempo\<close>\<close>

text \<open>
  A \<^verbatim>\<open>DimTempo\<close> object as the loader builds it. The surrogate key \<^verbatim>\<open>sk_tempo\<close> is given
  by the database on insert, so a stored row is a pair of the key and the object.
  \<^verbatim>\<open>isocalendar()[1]\<close> is computed as CPython does; \<^verbatim>\<open>strftime('%B')\<close> and
  \<^verbatim>\<open>strftime('%A')\<close> give the names of the C locale.
\<close>

record DimTempo =
  data_completa :: date
  ano :: nat
  trimestre :: nat
  mes :: nat
  dia :: nat
  dia_semana :: nat
  semana_ano :: nat
  nome_mes :: string
  nome_dia_semana :: string
  eh_final_semana :: bool
  eh_feriado :: bool

definition isoweek1monday :: "nat \<Rightarrow> int" where
  "isoweek1monday y =
     (let firstday = int (toordinal \<lparr>year = y, month = 1, day = 1\<rparr>);
          firstweekday = (firstday + 6) mod 7;
          week1monday = firstday - firstweekday
      in if firstweekday > 3 then week1monday + 7 else week1monday)"

definition iso_week :: "date \<Rightarrow> nat" where
  "iso_week d =
     (let today = int (toordinal d);
          week = (today - isoweek1monday (year d)) div 7
      in if week < 0 then nat ((today - isoweek1monday (year d - 1)) div 7 + 1)
         else if week \<ge> 52 \<and> today \<ge> isoweek1monday (year d + 1) then 1
         else nat (week + 1))"

definition month_name :: "nat \<Rightarrow> string" where
  "month_name m =
     [''January'', ''February'', ''March'', ''April'', ''May'', ''June'', ''July'',
      ''August'', ''September'', ''October'', ''November'', ''December''] ! (m - 1)"

definition weekday_name :: "nat \<Rightarrow> string" where
  "weekday_name w =
     [''Monday'', ''Tuesday'', ''Wednesday'', ''Thursday'', ''Friday'', ''Saturday'',
      ''Sunday''] ! w"

definition tempo_record :: "date \<Rightarrow> DimTempo" where
  "tempo_record current_date =
     (let weekday' = weekday current_date + 1;
          is_weekend = (weekday' = 6 \<or> weekday' = 7)
      in \<lparr>data_completa = current_date,
          ano = year current_date,
          trimestre = (month current_date - 1) div 3 + 1,
          mes = month current_date,
          dia = day current_date,
          dia_semana = weekday',
          semana_ano = iso_week current_date,
          nome_mes = month_name (month current_date),
          nome_dia_semana = weekday_name (weekday current_date),
          eh_final_semana = is_weekend,
          eh_feriado = False\<rparr>)"

text \<open>
  The step the loop calls "increment one day": \<^verbatim>\<open>replace(day=day + 1)\<close> while the day is
  below 28, otherwise the first day of the next month. Both build a new date, which raises
  ValueError when it is not a valid one (the year after 9999).
\<close>

definition next_date :: "date \<Rightarrow> py_error + date" where
  "next_date current_date =
     (if day current_date < 28
      then mk_date (year current_date) (month current_date) (day current_date + 1)
      else mk_date (year current_date + month current_date div 12)
                   (month current_date mod 12 + 1) 1)"

text \<open>The \<^verbatim>\<open>while current_date <= end_date\<close> loop, with the list it appends to.\<close>

function tempo_loop :: "date \<Rightarrow> date \<Rightarrow> DimTempo list \<Rightarrow> py_error + DimTempo list" where
  "tempo_loop current_date end_date tempo_records =
     (if date_le current_date end_date
      then (case next_date current_date of
              Inl e \<Rightarrow> Inl e
            | Inr nxt \<Rightarrow> tempo_loop nxt end_date (tempo_records @ [tempo_record current_date]))
      else Inr tempo_records)"
  by pat_completeness auto
termination
proof (relation "measure (\<lambda>(c, e, acc).
         (10000 - year c) * 400 + (13 - month c) * 30 + (29 - day c))", goal_cases)
  case 1
  show ?case by simp
next
  case (2 current_date end_date tempo_records nxt)
  let ?y = "year current_date" and ?m = "month current_date" and ?d = "day current_date"
  show ?case
  proof (cases "?d < 28")
    case True
    with 2 show ?thesis
      by (auto simp: next_date_def mk_date_def Let_def split: if_splits)
  next
    case False
    with 2 have n: "year nxt = ?y + ?m div 12" "month nxt = ?m mod 12 + 1" "day nxt = 1"
      and v: "?y + ?m div 12 \<le> 9999"
      by (auto simp: next_date_def mk_date_def valid_date_def Let_def split: if_splits)
    show ?thesis
    proof (cases "?m < 12")
      case True
      then show ?thesis using n by simp
    next
      case False
      then have "1 \<le> ?m div 12" by (simp add: div_greater_zero_iff)
      then have "(10000 - (?y + ?m div 12)) * 400 + 400 \<le> (10000 - ?y) * 400"
        using v by simp
      moreover have "(12 - ?m mod 12) * 30 \<le> 360"
        by simp
      ultimately have "(10000 - (?y + ?m div 12)) * 400 + (12 - ?m mod 12) * 30 + 28
          < (10000 - ?y) * 400 + (13 - ?m) * 30 + (29 - ?d)"
        by linarith
      then show ?thesis using n by simp
    qed
  qed
qed

text \<open>
  The session: \<^verbatim>\<open>add_all\<close> and \<^verbatim>\<open>commit\<close> insert the new rows with fresh keys
  (AUTO_INCREMENT); the column \<^verbatim>\<open>data_completa\<close> is declared \<^verbatim>\<open>unique=True\<close>, so the commit
  raises IntegrityError when a new row repeats a date of the table or of the batch. The
  \<^verbatim>\<open>except\<close> branch rolls back and raises again: the table stays as it was and the caller
  gets the exception (\<open>Some e\<close> in the first component of the result).
\<close>

type_synonym tempo_table = "(nat \<times> DimTempo) list"

definition tempo_dates :: "tempo_table \<Rightarrow> date list" where
  "tempo_dates table = map (\<lambda>row. data_completa (snd row)) table"

definition next_key :: "(nat \<times> 'a) list \<Rightarrow> nat" where
  "next_key table = Suc (fold max (map fst table) 0)"

definition insert_rows :: "(nat \<times> 'a) list \<Rightarrow> 'a list \<Rightarrow> (nat \<times> 'a) list" where
  "insert_rows table new = table @ zip [next_key table ..< next_key table + length new] new"

definition commit_dim_tempo :: "tempo_table \<Rightarrow> DimTempo list \<Rightarrow> py_error + tempo_table" where
  "commit_dim_tempo table tempo_records =
     (let dates = map data_completa tempo_records
      in if \<not> distinct dates \<or> list_ex (\<lambda>d. d \<in> set (tempo_dates table)) dates
         then Inl IntegrityError
         else Inr (insert_rows table tempo_records))"

definition load_dim_tempo :: "tempo_table \<Rightarrow> date \<Rightarrow> date \<Rightarrow> py_error option \<times> tempo_table" where
  "load_dim_tempo table start_date end_date =
     (case tempo_loop start_date end_date [] of
        Inl e \<Rightarrow> (Some e, table)
      | Inr tempo_records \<Rightarrow>
          (case commit_dim_tempo table tempo_records of
             Inl e \<Rightarrow> (Some e, table)
           | Inr table' \<Rightarrow> (None, table')))"

text \<open>The strict order of dates, for the reasoning about the loop.\<close>

definition date_lt :: "date \<Rightarrow> date \<Rightarrow> bool" where
  "date_lt a b =
     (year a < year b \<or>
      (year a = year b \<and> (month a < month b \<or> (month a = month b \<and> day a < day b))))"


section \<open>Parsing dates: \<^verbatim>\<open>datetime.strptime\<close>, \<^verbatim>\<open>DataTransformer.parse_date\<close>, \<^verbatim>\<open>DataLoader._parse_date\<close>\<close>

subsection \<open>\<^verbatim>\<open>datetime.strptime\<close> for the directives the repository uses\<close>

text \<open>
  The library function is modelled as CPython implements it: the format becomes a regular
  expression, with \<^verbatim>\<open>%d\<close> = \<^verbatim>\<open>3[0-1]|[1-2]\d|0[1-9]|[1-9]| [1-9]\<close>,
  \<^verbatim>\<open>%m\<close> = \<^verbatim>\<open>1[0-2]|0[1-9]|[1-9]\<close>, \<^verbatim>\<open>%Y\<close> = \<^verbatim>\<open>\d\d\d\d\<close>, \<^verbatim>\<open>%y\<close> = \<^verbatim>\<open>\d\d\<close>
  and every other character standing for itself; the string is matched from its start, the
  first match in the order of the alternatives wins, and ValueError is raised when nothing
  matches, when characters are left over after the match, or when the numbers found are not
  a date. A two-digit year up to 68 is in 2000..2068, otherwise in 1969..1999. Fields the
  format does not set default to 1900-01-01.
\<close>

datatype directive = Pct_d | Pct_m | Pct_Y | Pct_y | Lit char

fun parse_format :: "string \<Rightarrow> directive list option" where
  "parse_format [] = Some []"
| "parse_format (c # cs) =
     (if c = CHR ''%'' then
        (case cs of
           [] \<Rightarrow> None
         | k # rest \<Rightarrow>
             (case (if k = CHR ''d'' then Some Pct_d else if k = CHR ''m'' then Some Pct_m
                    else if k = CHR ''Y'' then Some Pct_Y else if k = CHR ''y'' then Some Pct_y
                    else None) of
                None \<Rightarrow> None
              | Some d \<Rightarrow> map_option ((#) d) (parse_format rest)))
      else map_option ((#) (Lit c)) (parse_format cs))"

definition digit_val :: "char \<Rightarrow> nat" where
  "digit_val c = of_char c - 48"

definition nat_of_digits :: "string \<Rightarrow> nat" where
  "nat_of_digits s = foldl (\<lambda>acc c. 10 * acc + digit_val c) 0 s"

text \<open>
  The alternatives of one directive at the head of the string, in the order the regular
  expression tries them: the number read and the rest of the string.
\<close>

definition two_digits :: "nat \<Rightarrow> nat \<Rightarrow> string \<Rightarrow> (nat \<times> string) list" where
  "two_digits lo hi s =
     (case s of
        a # b # r \<Rightarrow>
          if is_digit a \<and> is_digit b \<and> lo \<le> nat_of_digits [a, b] \<and> nat_of_digits [a, b] \<le> hi
          then [(nat_of_digits [a, b], r)] else []
      | _ \<Rightarrow> [])"

definition one_digit :: "string \<Rightarrow> (nat \<times> string) list" where
  "one_digit s =
     (case s of
        a # r \<Rightarrow> if is_digit a \<and> a \<noteq> CHR ''0'' then [(digit_val a, r)] else []
      | _ \<Rightarrow> [])"

definition space_digit :: "string \<Rightarrow> (nat \<times> string) list" where
  "space_digit s =
     (case s of
        sp # a # r \<Rightarrow>
          if sp = CHR '' '' \<and> is_digit a \<and> a \<noteq> CHR ''0'' then [(digit_val a, r)] else []
      | _ \<Rightarrow> [])"

definition four_digits :: "string \<Rightarrow> (nat \<times> string) list" where
  "four_digits s =
     (case s of
        a # b # c # d # r \<Rightarrow>
          if is_digit a \<and> is_digit b \<and> is_digit c \<and> is_digit d
          then [(nat_of_digits [a, b, c, d], r)] else []
      | _ \<Rightarrow> [])"

record ymd =
  found_Y :: nat
  found_m :: nat
  found_d :: nat

fun run_format :: "directive list \<Rightarrow> string \<Rightarrow> ymd \<Rightarrow> (ymd \<times> string) list" where
  "run_format [] s f = [(f, s)]"
| "run_format (Lit c # ds) s f =
     (case s of [] \<Rightarrow> [] | x # r \<Rightarrow> if x = c then run_format ds r f else [])"
| "run_format (Pct_d # ds) s f =
     concat (map (\<lambda>(v, r). run_format ds r (f\<lparr>found_d := v\<rparr>))
                 (two_digits 1 31 s @ one_digit s @ space_digit s))"
| "run_format (Pct_m # ds) s f =
     concat (map (\<lambda>(v, r). run_format ds r (f\<lparr>found_m := v\<rparr>))
                 (two_digits 1 12 s @ one_digit s))"
| "run_format (Pct_Y # ds) s f =
     concat (map (\<lambda>(v, r). run_format ds r (f\<lparr>found_Y := v\<rparr>)) (four_digits s))"
| "run_format (Pct_y # ds) s f =
     concat (map (\<lambda>(v, r). run_format ds r (f\<lparr>found_Y := (if v \<le> 68 then v + 2000 else v + 1900)\<rparr>))
                 (two_digits 0 99 s))"

definition strptime :: "string \<Rightarrow> string \<Rightarrow> py_error + date" where
  "strptime data_string fmt =
     (case parse_format fmt of
        None \<Rightarrow> Inl ValueError
      | Some ds \<Rightarrow>
          (case run_format ds data_string \<lparr>found_Y = 1900, found_m = 1, found_d = 1\<rparr> of
             [] \<Rightarrow> Inl ValueError
           | (f, rest) # _ \<Rightarrow>
               if rest \<noteq> [] then Inl ValueError
               else mk_date (found_Y f) (found_m f) (found_d f)))"

text \<open>
  \<^verbatim>\<open>for fmt in formats: try: return strptime(s, fmt) except ValueError: continue\<close>, falling
  through to \<^verbatim>\<open>return None\<close>.
\<close>

fun try_formats :: "string list \<Rightarrow> string \<Rightarrow> date option" where
  "try_formats [] s = None"
| "try_formats (fmt # formats) s =
     (case strptime s fmt of Inr d \<Rightarrow> Some d | Inl e \<Rightarrow> try_formats formats s)"

subsection \<open>The values a raw cell can hold, and \<^verbatim>\<open>str.strip\<close>\<close>

datatype py_value = PyNone | PyStr string | PyInt int | PyDate date

definition is_space :: "char \<Rightarrow> bool" where
  "is_space c = (c \<in> set [CHR '' '', CHR 0x09, CHR 0x0A, CHR 0x0B, CHR 0x0C, CHR 0x0D,
                           CHR 0x1C, CHR 0x1D, CHR 0x1E, CHR 0x1F, CHR 0x85, CHR 0xA0])"

definition strip :: "string \<Rightarrow> string" where
  "strip s = rev (dropWhile is_space (rev (dropWhile is_space s)))"

subsection \<open>\<^verbatim>\<open>DataTransformer.parse_date\<close> (etl.py)\<close>

text \<open>
  None (and NaN, which \<^verbatim>\<open>pd.isna\<close> treats alike) and the empty string give None, a date is
  returned as it is, a string is stripped and tried against the formats in order; any other
  value falls through to \<^verbatim>\<open>return None\<close>.
\<close>

definition parse_date_formats :: "string list" where
  "parse_date_formats =
     [''%d/%m/%Y'', ''%Y-%m-%d'', ''%d-%m-%Y'', ''%Y%m%d'', ''%d/%m/%y'', ''%Y/%m/%d'']"

definition parse_date :: "py_value \<Rightarrow> date option" where
  "parse_date date_value =
     (case date_value of
        PyNone \<Rightarrow> None
      | PyDate d \<Rightarrow> Some d
      | PyStr s \<Rightarrow> if s = [] then None else try_formats parse_date_formats (strip s)
      | PyInt n \<Rightarrow> None)"

subsection \<open>\<^verbatim>\<open>DataLoader._parse_date\<close> (db.py)\<close>

text \<open>
  \<^verbatim>\<open>not date_str\<close> holds for None, the empty string and the number 0. The string is not
  stripped here, and three formats are tried.
\<close>

definition db_parse_date :: "py_value \<Rightarrow> date option" where
  "db_parse_date date_str =
     (case date_str of
        PyNone \<Rightarrow> None
      | PyDate d \<Rightarrow> Some d
      | PyStr s \<Rightarrow> if s = [] then None else try_formats [''%Y-%m-%d'', ''%d/%m/%Y'', ''%Y%m%d''] s
      | PyInt n \<Rightarrow> None)"

subsection \<open>Formatting a date, for the round trip\<close>

text \<open>
  \<^verbatim>\<open>format(d, f)\<close> of the round-trip property: \<^verbatim>\<open>%d\<close> and \<^verbatim>\<open>%m\<close> are written with two
  digits, \<^verbatim>\<open>%Y\<close> with four (DD, MM, YYYY in the names of the formats), \<^verbatim>\<open>%y\<close> is the year
  within the century with two digits (YY).
\<close>

definition pad2 :: "nat \<Rightarrow> string" where
  "pad2 n = [digit_char (n div 10 mod 10), digit_char (n mod 10)]"

definition pad4 :: "nat \<Rightarrow> string" where
  "pad4 n = [digit_char (n div 1000 mod 10), digit_char (n div 100 mod 10),
             digit_char (n div 10 mod 10), digit_char (n mod 10)]"

fun format_directives :: "directive list \<Rightarrow> date \<Rightarrow> string" where
  "format_directives [] dt = []"
| "format_directives (Lit c # ds) dt = c # format_directives ds dt"
| "format_directives (Pct_d # ds) dt = pad2 (day dt) @ format_directives ds dt"
| "format_directives (Pct_m # ds) dt = pad2 (month dt) @ format_directives ds dt"
| "format_directives (Pct_Y # ds) dt = pad4 (year dt) @ format_directives ds dt"
| "format_directives (Pct_y # ds) dt = pad2 (year dt mod 100) @ format_directives ds dt"

definition strftime :: "date \<Rightarrow> string \<Rightarrow> string" where
  "strftime dt fmt = (case parse_format fmt of None \<Rightarrow> [] | Some ds \<Rightarrow> format_directives ds dt)"


section \<open>The other validators of \<^verbatim>\<open>DataValidator\<close> (etl.py)\<close>

subsection \<open>\<^verbatim>\<open>validate_cnpj\<close>\<close>

text \<open>
  \<^verbatim>\<open>zip(cnpj_partial, weights)\<close> stops at the shorter list: the second check digit is computed
  from the first 12 of the 13 characters passed, since \<^verbatim>\<open>weights2\<close> has 12 entries.
\<close>

definition calculate_digit_weights :: "string \<Rightarrow> int list \<Rightarrow> int" where
  "calculate_digit_weights cnpj_partial weights =
     (let total = sum_list (map (\<lambda>(digit, weight). int_of_char digit * weight)
                                (zip cnpj_partial weights));
          remainder = total mod 11
      in if remainder < 2 then 0 else 11 - remainder)"

definition validate_cnpj :: "string option \<Rightarrow> bool" where
  "validate_cnpj cnpj0 =
     (case cnpj0 of
        None \<Rightarrow> False
      | Some raw \<Rightarrow>
          if raw = [] then False
          else let cnpj = filter is_digit raw in
            if length cnpj \<noteq> 14 then False
            else let weights1 = [5, 4, 3, 2, 9, 8, 7, 6, 5, 4, 3, 2];
                     weights2 = [6, 7, 8, 9, 2, 3, 4, 5, 6, 7, 8, 9];
                     first_digit = calculate_digit_weights (take 12 cnpj) weights1;
                     second_digit = calculate_digit_weights (take 13 cnpj) weights2
                 in drop (length cnpj - 2) cnpj = str_int first_digit @ str_int second_digit)"

subsection \<open>\<^verbatim>\<open>validate_email\<close>\<close>

text \<open>
  \<^verbatim>\<open>re.match(r'^[a-zA-Z0-9._%+-]+@[a-zA-Z0-9.-]+\.[a-zA-Z]{2,}$', email)\<close>. \<open>consume p s\<close>
  lists what is left of \<open>s\<close> after reading 0, 1, 2, ... characters of the class \<open>p\<close>, so
  the rests after \<^verbatim>\<open>p+\<close> are all but the first of them and the rests after \<^verbatim>\<open>p{2,}\<close> all
  but the first two. \<^verbatim>\<open>$\<close> matches at the end of the string and before a newline that ends
  it. None and the empty string are valid.
\<close>

definition is_alpha :: "char \<Rightarrow> bool" where
  "is_alpha c = (c \<in> set ''abcdefghijklmnopqrstuvwxyzABCDEFGHIJKLMNOPQRSTUVWXYZ'')"

definition local_char :: "char \<Rightarrow> bool" where
  "local_char c = (is_alpha c \<or> is_digit c \<or> c \<in> set ''._%+-'')"

definition domain_char :: "char \<Rightarrow> bool" where
  "domain_char c = (is_alpha c \<or> is_digit c \<or> c \<in> set ''.-'')"

fun consume :: "(char \<Rightarrow> bool) \<Rightarrow> string \<Rightarrow> string list" where
  "consume p [] = [[]]"
| "consume p (c # r) = (c # r) # (if p c then consume p r else [])"

definition at_end :: "string \<Rightarrow> bool" where
  "at_end s = (s = [] \<or> s = [CHR 0x0A])"

definition email_matches :: "string \<Rightarrow> bool" where
  "email_matches email =
     list_ex (\<lambda>r1. case r1 of
                [] \<Rightarrow> False
              | c1 # r2 \<Rightarrow> c1 = CHR ''@'' \<and>
                  list_ex (\<lambda>r3. case r3 of
                             [] \<Rightarrow> False
                           | c2 # r4 \<Rightarrow> c2 = CHR ''.'' \<and>
                               list_ex at_end (drop 2 (consume is_alpha r4)))
                          (drop 1 (consume domain_char r2)))
             (drop 1 (consume local_char email))"

definition validate_email :: "string option \<Rightarrow> bool" where
  "validate_email email =
     (case email of None \<Rightarrow> True | Some s \<Rightarrow> if s = [] then True else email_matches s)"

subsection \<open>\<^verbatim>\<open>validate_date_range\<close>\<close>

text \<open>
  \<^verbatim>\<open>if not end_date: return True\<close>, then \<^verbatim>\<open>start_date <= end_date\<close>: comparing None with a
  date raises TypeError.
\<close>

definition validate_date_range :: "date option \<Rightarrow> date option \<Rightarrow> py_error + bool" where
  "validate_date_range start_date end_date =
     (case end_date of
        None \<Rightarrow> Inr True
      | Some e \<Rightarrow>
          (case start_date of
             None \<Rightarrow> Inl TypeError
           | Some s \<Rightarrow> Inr (date_le s e)))"


section \<open>\<^verbatim>\<open>DataTransformer\<close>: cleaning and derived values (etl.py)\<close>

definition clean_digits :: "string option \<Rightarrow> string option" where
  "clean_digits v =
     (case v of None \<Rightarrow> None | Some s \<Rightarrow> if s = [] then None else Some (filter is_digit s))"

definition SEXO_MAP :: "int \<Rightarrow> string option" where
  "SEXO_MAP k = (if k = 1 then Some ''MASCULINO'' else if k = 2 then Some ''FEMININO'' else None)"

definition ESTADO_CIVIL_MAP :: "int \<Rightarrow> string option" where
  "ESTADO_CIVIL_MAP k =
     (if k = 1 then Some ''SOLTEIRO(A)'' else if k = 2 then Some ''CASADO(A)''
      else if k = 3 then Some ''SEPARADO(A)'' else if k = 4 then Some ''DESQUITADO(A)''
      else if k = 5 then Some ''VIUVO(A)'' else if k = 6 then Some ''OUTROS''
      else if k = 7 then Some ''DIVORCIADO(A)'' else None)"

definition TIPO_ATESTADO_MAP :: "int \<Rightarrow> string option" where
  "TIPO_ATESTADO_MAP k =
     (if k = 1 then Some ''MEDICO'' else if k = 2 then Some ''ODONTOLOGICO''
      else if k = 3 then Some ''ACIDENTE_TRABALHO'' else if k = 4 then Some ''OUTROS'' else None)"

definition map_codes :: "(int \<Rightarrow> string option) \<Rightarrow> int option \<Rightarrow> string option" where
  "map_codes m v = (case v of None \<Rightarrow> None | Some k \<Rightarrow> m k)"

definition calculate_age :: "date option \<Rightarrow> date \<Rightarrow> int option" where
  "calculate_age birth_date reference_date =
     (case birth_date of
        None \<Rightarrow> None
      | Some b \<Rightarrow>
          Some (int (year reference_date) - int (year b) -
                (if month reference_date < month b \<or>
                    (month reference_date = month b \<and> day reference_date < day b)
                 then 1 else 0)))"

text \<open>\<^verbatim>\<open>pd.bdate_range(start, end).size\<close>: the days from Monday to Friday in the closed range.\<close>

definition calculate_work_days :: "date option \<Rightarrow> date option \<Rightarrow> int" where
  "calculate_work_days start_date end_date =
     (case (start_date, end_date) of
        (Some s, Some e) \<Rightarrow>
          int (length (filter (\<lambda>n. (n + 6) mod 7 < 5) [toordinal s ..< Suc (toordinal e)]))
      | _ \<Rightarrow> 0)"

text \<open>
  \<^verbatim>\<open>pd.cut(values, bins, labels, include_lowest=True)\<close>: the intervals are closed on the
  right, the first one on the left too; a value outside all of them, or a missing one, gets
  no label. \<open>bins\<close> lists the upper edges after the lowest edge \<open>lo\<close>; the last interval has
  no upper edge.
\<close>

fun cut_from :: "int list \<Rightarrow> string list \<Rightarrow> int \<Rightarrow> string option" where
  "cut_from (b # bins) (l # labels) v = (if v \<le> b then Some l else cut_from bins labels v)"
| "cut_from [] (l # labels) v = Some l"
| "cut_from bins [] v = None"

definition cut :: "int \<Rightarrow> int list \<Rightarrow> string list \<Rightarrow> int option \<Rightarrow> string option" where
  "cut lo bins labels value =
     (case value of None \<Rightarrow> None | Some v \<Rightarrow> if v < lo then None else cut_from bins labels v)"


section \<open>\<^verbatim>\<open>FuncionarioETL\<close> and \<^verbatim>\<open>AbsenteismoETL\<close> (etl.py)\<close>

text \<open>
  A data frame is the list of its rows, the index of a row its position (the default
  index). A row is a record of the columns the two classes read or write; the date columns
  hold raw values before \<^verbatim>\<open>parse_date\<close> and dates (or None) after it, so the record is
  polymorphic in them. The floating-point column \<^verbatim>\<open>tempo_empresa\<close>, the time-of-day columns
  and the descriptive columns that are only carried along are left out. A missing numeric
  cell is NaN in pandas and None here. An entry of the error list is the index of the row
  and the kind of error (the message of the source, which is not ASCII); the copy of the
  offending values is left out.
\<close>

datatype etl_error_kind =
  CPF_invalido | Email_invalido | Data_demissao_anterior | Data_fim_anterior
  | Dias_afastados_negativo

type_synonym etl_error = "nat \<times> etl_error_kind"

definition truthy :: "string option \<Rightarrow> bool" where
  "truthy v = (case v of None \<Rightarrow> False | Some s \<Rightarrow> s \<noteq> [])"

subsection \<open>\<^verbatim>\<open>FuncionarioETL.process_raw_data\<close>\<close>

record 'd funcionario_cols =
  CPF :: "string option"
  TELEFONECELULAR :: "string option"
  TELEFONERESIDENCIAL :: "string option"
  EMAIL :: "string option"
  DATA_NASCIMENTO :: 'd
  DATA_ADMISSAO :: 'd
  DATA_DEMISSAO :: 'd
  DATAULTALTERACAO :: 'd
  SEXO :: "int option"
  ESTADOCIVIL :: "int option"

record funcionario_clean = "date option funcionario_cols" +
  idade_atual :: "int option"
  sexo_desc :: "string option"
  estado_civil_desc :: "string option"
  faixa_etaria :: "string option"
  status_ativo :: bool

definition funcionario_transform :: "py_value funcionario_cols \<Rightarrow> date option funcionario_cols" where
  "funcionario_transform r =
     \<lparr>CPF = clean_digits (CPF r),
      TELEFONECELULAR = clean_digits (TELEFONECELULAR r),
      TELEFONERESIDENCIAL = clean_digits (TELEFONERESIDENCIAL r),
      EMAIL = EMAIL r,
      DATA_NASCIMENTO = parse_date (DATA_NASCIMENTO r),
      DATA_ADMISSAO = parse_date (DATA_ADMISSAO r),
      DATA_DEMISSAO = parse_date (DATA_DEMISSAO r),
      DATAULTALTERACAO = parse_date (DATAULTALTERACAO r),
      SEXO = SEXO r,
      ESTADOCIVIL = ESTADOCIVIL r\<rparr>"

text \<open>The loop \<^verbatim>\<open>for idx, row in processed_data.iterrows()\<close>, with the list \<^verbatim>\<open>errors\<close>.\<close>

fun funcionario_validation ::
  "nat \<Rightarrow> date option funcionario_cols list \<Rightarrow> etl_error list \<Rightarrow> py_error + etl_error list" where
  "funcionario_validation idx [] errors = Inr errors"
| "funcionario_validation idx (row # rows) errors =
     (let errors1 = (if truthy (CPF row) \<and> \<not> validate_cpf (CPF row)
                     then errors @ [(idx, CPF_invalido)] else errors);
          errors2 = (if truthy (EMAIL row) \<and> \<not> validate_email (EMAIL row)
                     then errors1 @ [(idx, Email_invalido)] else errors1)
      in case validate_date_range (DATA_ADMISSAO row) (DATA_DEMISSAO row) of
           Inl e \<Rightarrow> Inl e
         | Inr ok \<Rightarrow>
             funcionario_validation (Suc idx) rows
               (if \<not> ok then errors2 @ [(idx, Data_demissao_anterior)] else errors2))"

text \<open>The columns \<^verbatim>\<open>_calculate_derived_metrics\<close> adds, for one row.\<close>

definition funcionario_derived_metrics :: "date \<Rightarrow> date option funcionario_cols \<Rightarrow> funcionario_clean" where
  "funcionario_derived_metrics today r =
     (let idade = calculate_age (DATA_NASCIMENTO r) today
      in \<lparr>CPF = CPF r,
          TELEFONECELULAR = TELEFONECELULAR r,
          TELEFONERESIDENCIAL = TELEFONERESIDENCIAL r,
          EMAIL = EMAIL r,
          DATA_NASCIMENTO = DATA_NASCIMENTO r,
          DATA_ADMISSAO = DATA_ADMISSAO r,
          DATA_DEMISSAO = DATA_DEMISSAO r,
          DATAULTALTERACAO = DATAULTALTERACAO r,
          SEXO = SEXO r,
          ESTADOCIVIL = ESTADOCIVIL r,
          idade_atual = idade,
          sexo_desc = map_codes SEXO_MAP (SEXO r),
          estado_civil_desc = map_codes ESTADO_CIVIL_MAP (ESTADOCIVIL r),
          faixa_etaria = cut 0 [25, 35, 45, 55, 65]
                           [''<25'', ''25-34'', ''35-44'', ''45-54'', ''55-64'', ''65+''] idade,
          status_ativo = (DATA_DEMISSAO r = None)\<rparr>)"

text \<open>
  \<^verbatim>\<open>_calculate_derived_metrics\<close> on the frame. The columns are computed row by row, as
  above, but two steps depend on the frame as a whole. On a frame without rows
  \<^verbatim>\<open>data.apply(..., axis=1)\<close> returns a copy of the frame, not a column, and assigning it to
  \<^verbatim>\<open>tempo_empresa\<close> raises ValueError. When no row has a birth date, \<^verbatim>\<open>idade_atual\<close> holds
  only None and keeps the dtype object (with at least one age it is a numeric column, the
  missing ages NaN), and \<^verbatim>\<open>pd.cut\<close> raises TypeError when it compares its bins with None.
\<close>

definition FuncionarioETL_calculate_derived_metrics ::
  "date \<Rightarrow> date option funcionario_cols list \<Rightarrow> py_error + funcionario_clean list" where
  "FuncionarioETL_calculate_derived_metrics today data =
     (if data = [] then Inl ValueError
      else if list_all (\<lambda>r. DATA_NASCIMENTO r = None) data then Inl TypeError
      else Inr (map (funcionario_derived_metrics today) data))"

definition FuncionarioETL_process_raw_data ::
  "date \<Rightarrow> py_value funcionario_cols list \<Rightarrow> py_error + (funcionario_clean list \<times> etl_error list)" where
  "FuncionarioETL_process_raw_data today raw_data =
     (let processed_data = map funcionario_transform raw_data
      in case funcionario_validation 0 processed_data [] of
           Inl e \<Rightarrow> Inl e
         | Inr errors \<Rightarrow>
             (case FuncionarioETL_calculate_derived_metrics today processed_data of
                Inl e \<Rightarrow> Inl e
              | Inr processed_data' \<Rightarrow> Inr (processed_data', errors)))"

subsection \<open>\<^verbatim>\<open>AbsenteismoETL.process_raw_data\<close>\<close>

text \<open>The columns carry the names they have after \<^verbatim>\<open>rename(columns=column_mapping)\<close>.\<close>

record 'd absenteismo_cols =
  matricula_funcionario :: "string option"
  data_nascimento :: 'd
  sexo :: "int option"
  tipo_atestado :: "int option"
  data_inicio_atestado :: 'd
  data_fim_atestado :: 'd
  dias_afastados :: "int option"

record absenteismo_clean = "date option absenteismo_cols" +
  sexo_desc :: "string option"
  tipo_atestado_desc :: "string option"
  idade_na_data_inicio :: "int option"
  categoria_afastamento :: "string option"

definition absenteismo_transform :: "py_value absenteismo_cols \<Rightarrow> date option absenteismo_cols" where
  "absenteismo_transform r =
     \<lparr>matricula_funcionario = matricula_funcionario r,
      data_nascimento = parse_date (data_nascimento r),
      sexo = sexo r,
      tipo_atestado = tipo_atestado r,
      data_inicio_atestado = parse_date (data_inicio_atestado r),
      data_fim_atestado = parse_date (data_fim_atestado r),
      dias_afastados = dias_afastados r\<rparr>"

fun absenteismo_validation ::
  "nat \<Rightarrow> date option absenteismo_cols list \<Rightarrow> etl_error list \<Rightarrow> py_error + etl_error list" where
  "absenteismo_validation idx [] errors = Inr errors"
| "absenteismo_validation idx (row # rows) errors =
     (case validate_date_range (data_inicio_atestado row) (data_fim_atestado row) of
        Inl e \<Rightarrow> Inl e
      | Inr ok \<Rightarrow>
          (let errors1 = (if \<not> ok then errors @ [(idx, Data_fim_anterior)] else errors);
               errors2 = (if na_cmp (\<lambda>n. n < 0) (dias_afastados row)
                          then errors1 @ [(idx, Dias_afastados_negativo)] else errors1)
           in absenteismo_validation (Suc idx) rows errors2))"

text \<open>\<^verbatim>\<open>dropna(subset=['data_inicio_atestado', 'sexo', 'tipo_atestado'])\<close>.\<close>

definition has_required :: "date option absenteismo_cols \<Rightarrow> bool" where
  "has_required r =
     (data_inicio_atestado r \<noteq> None \<and> sexo r \<noteq> None \<and> tipo_atestado r \<noteq> None)"

text \<open>
  The columns \<^verbatim>\<open>_calculate_derived_metrics\<close> adds or fills, for one row: a missing day count
  becomes the number of working days of the certificate.
\<close>

definition absenteismo_derived_metrics :: "date \<Rightarrow> date option absenteismo_cols \<Rightarrow> absenteismo_clean" where
  "absenteismo_derived_metrics today r =
     (let dias = (case dias_afastados r of
                    Some n \<Rightarrow> Some n
                  | None \<Rightarrow>
                      Some (calculate_work_days (data_inicio_atestado r)
                              (case data_fim_atestado r of
                                 Some e \<Rightarrow> Some e | None \<Rightarrow> data_inicio_atestado r)))
      in \<lparr>matricula_funcionario = matricula_funcionario r,
          data_nascimento = data_nascimento r,
          sexo = sexo r,
          tipo_atestado = tipo_atestado r,
          data_inicio_atestado = data_inicio_atestado r,
          data_fim_atestado = data_fim_atestado r,
          dias_afastados = dias,
          sexo_desc = map_codes SEXO_MAP (sexo r),
          tipo_atestado_desc = map_codes TIPO_ATESTADO_MAP (tipo_atestado r),
          idade_na_data_inicio =
            calculate_age (data_nascimento r)
              (case data_inicio_atestado r of Some i \<Rightarrow> i | None \<Rightarrow> today),
          categoria_afastamento =
            cut 0 [1, 3, 7, 15, 30]
              [''1 dia'', ''2-3 dias'', ''4-7 dias'', ''8-15 dias'', ''16-30 dias'', ''>30 dias'']
              dias\<rparr>)"

text \<open>
  \<^verbatim>\<open>_calculate_derived_metrics\<close> on the frame of the rows that are left. When none is left,
  \<^verbatim>\<open>data.apply(..., axis=1)\<close> returns a copy of the frame, not a column, and assigning it to
  \<^verbatim>\<open>idade_na_data_inicio\<close> raises ValueError.
\<close>

definition AbsenteismoETL_calculate_derived_metrics ::
  "date \<Rightarrow> date option absenteismo_cols list \<Rightarrow> py_error + absenteismo_clean list" where
  "AbsenteismoETL_calculate_derived_metrics today data =
     (if data = [] then Inl ValueError
      else Inr (map (absenteismo_derived_metrics today) data))"

definition AbsenteismoETL_process_raw_data ::
  "date \<Rightarrow> py_value absenteismo_cols list \<Rightarrow> py_error + (absenteismo_clean list \<times> etl_error list)" where
  "AbsenteismoETL_process_raw_data today raw_data =
     (let processed_data = map absenteismo_transform raw_data
      in case absenteismo_validation 0 processed_data [] of
           Inl e \<Rightarrow> Inl e
         | Inr errors \<Rightarrow>
             (let valid_rows = filter has_required processed_data
              in case AbsenteismoETL_calculate_derived_metrics today valid_rows of
                   Inl e \<Rightarrow> Inl e
                 | Inr valid_rows' \<Rightarrow> Inr (valid_rows', errors)))"

text \<open>
  What one row adds to the error list, for the reasoning about the two loops.
\<close>

definition funcionario_row_errors :: "nat \<Rightarrow> date option funcionario_cols \<Rightarrow> etl_error list" where
  "funcionario_row_errors idx row =
     (if truthy (CPF row) \<and> \<not> validate_cpf (CPF row) then [(idx, CPF_invalido)] else []) @
     (if truthy (EMAIL row) \<and> \<not> validate_email (EMAIL row) then [(idx, Email_invalido)] else []) @
     (if validate_date_range (DATA_ADMISSAO row) (DATA_DEMISSAO row) = Inr False
      then [(idx, Data_demissao_anterior)] else [])"

definition absenteismo_row_errors :: "nat \<Rightarrow> date option absenteismo_cols \<Rightarrow> etl_error list" where
  "absenteismo_row_errors idx row =
     (if validate_date_range (data_inicio_atestado row) (data_fim_atestado row) = Inr False
      then [(idx, Data_fim_anterior)] else []) @
     (if na_cmp (\<lambda>n. n < 0) (dias_afastados row) then [(idx, Dias_afastados_negativo)] else [])"


section \<open>\<^verbatim>\<open>DataLoader.load_funcionarios\<close> and \<^verbatim>\<open>DataLoader.load_absenteismo\<close> (db.py)\<close>

subsection \<open>Dictionaries and tables\<close>

text \<open>
  A raw row is a Python dict from field names to values: \<^verbatim>\<open>d[k]\<close> raises KeyError on a
  missing key (\<open>has_keys\<close> tells whether a list of keys can be read), \<^verbatim>\<open>d.get(k, default)\<close>
  does not.
\<close>

type_synonym py_dict = "string \<Rightarrow> py_value option"

definition dict_get :: "py_dict \<Rightarrow> string \<Rightarrow> py_value \<Rightarrow> py_value" where
  "dict_get d k dflt = (case d k of None \<Rightarrow> dflt | Some v \<Rightarrow> v)"

definition has_keys :: "py_dict \<Rightarrow> string list \<Rightarrow> bool" where
  "has_keys d ks = list_all (\<lambda>k. d k \<noteq> None) ks"

text \<open>
  The rows of \<^verbatim>\<open>dim_funcionario\<close> and \<^verbatim>\<open>fato_absenteismo\<close>, with the columns the two loaders
  match on or the schema constrains (the other descriptive columns are copied with
  \<^verbatim>\<open>.get\<close> and left out). A column holds the value the loader was given; the date columns
  hold what \<^verbatim>\<open>_parse_date\<close> returned. \<^verbatim>\<open>registro_ativo\<close>, \<^verbatim>\<open>data_inicio_validade\<close> and
  \<^verbatim>\<open>data_fim_validade\<close> are never set by the loader, so a new row gets the column defaults:
  True, the time of the insert (\<open>now\<close>) and NULL. As in the source, the columns are named
  by their class: \<open>DimFuncionario.sexo\<close>, \<open>FatoAbsenteismo.sexo\<close>.
\<close>

record DimFuncionario =
  codigo_funcionario :: py_value
  codigo_empresa :: py_value
  nome :: py_value
  cpf :: py_value
  data_nascimento :: "date option"
  sexo :: py_value
  matricula_funcionario :: py_value
  situacao :: py_value
  data_admissao :: "date option"
  data_demissao :: "date option"
  nome_unidade :: py_value
  nome_setor :: py_value
  data_inicio_validade :: nat
  data_fim_validade :: "nat option"
  registro_ativo :: bool

record FatoAbsenteismo =
  sk_funcionario :: nat
  sk_tempo_inicio :: "nat option"
  sk_tempo_fim :: "nat option"
  codigo_empresa :: py_value
  unidade :: py_value
  setor :: py_value
  data_nascimento :: "date option"
  sexo :: py_value
  matricula_funcionario :: py_value
  tipo_atestado :: py_value
  data_inicio_atestado :: "date option"
  data_fim_atestado :: "date option"
  dias_afastados :: py_value

text \<open>
  The database: the company codes of \<^verbatim>\<open>dim_empresa\<close> (the target of a foreign key) and the
  three tables, each a list of rows with their surrogate keys.
\<close>

record database =
  dim_empresa :: "py_value list"
  dim_funcionario :: "(nat \<times> DimFuncionario) list"
  dim_tempo :: tempo_table
  fato_absenteismo :: "(nat \<times> FatoAbsenteismo) list"

subsection \<open>\<^verbatim>\<open>load_funcionarios\<close>\<close>

text \<open>
  One \<^verbatim>\<open>DimFuncionario(...)\<close> per dict: seven fields are read with \<^verbatim>\<open>[...]\<close>, the others with
  \<^verbatim>\<open>.get\<close>. Nothing is looked up and no stored row is touched.
\<close>

definition funcionario_of :: "nat \<Rightarrow> py_dict \<Rightarrow> py_error + DimFuncionario" where
  "funcionario_of now func_data =
     (if \<not> has_keys func_data [''CODIGO'', ''CODIGOEMPRESA'', ''NOME'', ''CPF'', ''SEXO'',
                                 ''MATRICULAFUNCIONARIO'', ''SITUACAO'']
      then Inl KeyError
      else Inr \<lparr>DimFuncionario.codigo_funcionario = dict_get func_data ''CODIGO'' PyNone,
                DimFuncionario.codigo_empresa = dict_get func_data ''CODIGOEMPRESA'' PyNone,
                DimFuncionario.nome = dict_get func_data ''NOME'' PyNone,
                DimFuncionario.cpf = dict_get func_data ''CPF'' PyNone,
                DimFuncionario.data_nascimento =
                  db_parse_date (dict_get func_data ''DATA_NASCIMENTO'' PyNone),
                DimFuncionario.sexo = dict_get func_data ''SEXO'' PyNone,
                DimFuncionario.matricula_funcionario =
                  dict_get func_data ''MATRICULAFUNCIONARIO'' PyNone,
                DimFuncionario.situacao = dict_get func_data ''SITUACAO'' PyNone,
                DimFuncionario.data_admissao =
                  db_parse_date (dict_get func_data ''DATA_ADMISSAO'' PyNone),
                DimFuncionario.data_demissao =
                  db_parse_date (dict_get func_data ''DATA_DEMISSAO'' PyNone),
                DimFuncionario.nome_unidade = dict_get func_data ''NOMEUNIDADE'' PyNone,
                DimFuncionario.nome_setor = dict_get func_data ''NOMESETOR'' PyNone,
                DimFuncionario.data_inicio_validade = now,
                DimFuncionario.data_fim_validade = None,
                DimFuncionario.registro_ativo = True\<rparr>)"

fun funcionarios_loop :: "nat \<Rightarrow> py_dict list \<Rightarrow> DimFuncionario list \<Rightarrow> py_error + DimFuncionario list" where
  "funcionarios_loop now [] funcionarios = Inr funcionarios"
| "funcionarios_loop now (func_data # rest) funcionarios =
     (case funcionario_of now func_data of
        Inl e \<Rightarrow> Inl e
      | Inr funcionario \<Rightarrow> funcionarios_loop now rest (funcionarios @ [funcionario]))"

text \<open>
  The commit checks what the schema declares: the \<^verbatim>\<open>nullable=False\<close> columns and the foreign
  key to \<^verbatim>\<open>dim_empresa.codigo_empresa\<close>. The natural key (codigo_funcionario,
  codigo_empresa) carries an index but no unique constraint.
\<close>

definition funcionario_insertable :: "py_value list \<Rightarrow> DimFuncionario \<Rightarrow> bool" where
  "funcionario_insertable empresas f =
     (DimFuncionario.codigo_funcionario f \<noteq> PyNone \<and>
      DimFuncionario.codigo_empresa f \<noteq> PyNone \<and>
      DimFuncionario.codigo_empresa f \<in> set empresas \<and>
      DimFuncionario.nome f \<noteq> PyNone \<and> DimFuncionario.cpf f \<noteq> PyNone \<and>
      DimFuncionario.data_nascimento f \<noteq> None \<and> DimFuncionario.sexo f \<noteq> PyNone \<and>
      DimFuncionario.matricula_funcionario f \<noteq> PyNone \<and>
      DimFuncionario.situacao f \<noteq> PyNone \<and> DimFuncionario.data_admissao f \<noteq> None)"

definition load_funcionarios :: "database \<Rightarrow> nat \<Rightarrow> py_dict list \<Rightarrow> py_error option \<times> database" where
  "load_funcionarios db now funcionarios_data =
     (case funcionarios_loop now funcionarios_data [] of
        Inl e \<Rightarrow> (Some e, db)
      | Inr funcionarios \<Rightarrow>
          if list_all (funcionario_insertable (dim_empresa db)) funcionarios
          then (None, db\<lparr>dim_funcionario := insert_rows (dim_funcionario db) funcionarios\<rparr>)
          else (Some IntegrityError, db))"

text \<open>The versions of a natural key that are marked active.\<close>

definition active_versions :: "database \<Rightarrow> py_value \<Rightarrow> py_value \<Rightarrow> (nat \<times> DimFuncionario) list" where
  "active_versions db empresa codigo =
     filter (\<lambda>row. DimFuncionario.codigo_empresa (snd row) = empresa \<and>
                    DimFuncionario.codigo_funcionario (snd row) = codigo \<and>
                    DimFuncionario.registro_ativo (snd row))
            (dim_funcionario db)"

subsection \<open>\<^verbatim>\<open>load_absenteismo\<close>\<close>

text \<open>
  The filter of the employee query. A comparison of a column with a value holds when both
  are the same value (for None, SQLAlchemy writes \<^verbatim>\<open>IS NULL\<close>); \<^verbatim>\<open>.first()\<close> is the first
  row of the table that passes.
\<close>

definition matches_funcionario :: "py_dict \<Rightarrow> DimFuncionario \<Rightarrow> bool" where
  "matches_funcionario abs_data f =
     (DimFuncionario.codigo_empresa f = dict_get abs_data ''EMPRESA'' (PyInt 0) \<and>
      DimFuncionario.nome_unidade f = dict_get abs_data ''UNIDADE'' PyNone \<and>
      DimFuncionario.nome_setor f = dict_get abs_data ''SETOR'' PyNone \<and>
      DimFuncionario.data_nascimento f =
        db_parse_date (dict_get abs_data ''DT_NASCIMENTO'' PyNone) \<and>
      DimFuncionario.sexo f = dict_get abs_data ''SEXO'' PyNone \<and>
      DimFuncionario.registro_ativo f = True)"

definition find_funcionario :: "database \<Rightarrow> py_dict \<Rightarrow> (nat \<times> DimFuncionario) option" where
  "find_funcionario db abs_data =
     find (\<lambda>row. matches_funcionario abs_data (snd row)) (dim_funcionario db)"

definition find_tempo :: "database \<Rightarrow> date option \<Rightarrow> (nat \<times> DimTempo) option" where
  "find_tempo db d = find (\<lambda>row. Some (data_completa (snd row)) = d) (dim_tempo db)"

text \<open>
  The body of the loop for one dict: it raises KeyError on a missing key, skips the row
  with a warning when the query finds no employee, and builds the fact otherwise.
\<close>

datatype row_result = Raised py_error | Skipped | Built FatoAbsenteismo

definition absenteismo_of :: "database \<Rightarrow> py_dict \<Rightarrow> row_result" where
  "absenteismo_of db abs_data =
     (if \<not> has_keys abs_data [''UNIDADE'', ''SETOR'', ''DT_NASCIMENTO'', ''SEXO'']
      then Raised KeyError
      else case find_funcionario db abs_data of
        None \<Rightarrow> Skipped
      | Some funcionario \<Rightarrow>
          if \<not> has_keys abs_data [''DT_INICIO_ATESTADO'', ''MATRICULA_FUNC'', ''TIPO_ATESTADO'']
          then Raised KeyError
          else
            let data_inicio = db_parse_date (dict_get abs_data ''DT_INICIO_ATESTADO'' PyNone);
                data_fim = db_parse_date (dict_get abs_data ''DT_FIM_ATESTADO'' PyNone);
                tempo_inicio = find_tempo db data_inicio;
                tempo_fim = (if data_fim \<noteq> None then find_tempo db data_fim else None)
            in Built
                 \<lparr>FatoAbsenteismo.sk_funcionario = fst funcionario,
                  FatoAbsenteismo.sk_tempo_inicio = map_option fst tempo_inicio,
                  FatoAbsenteismo.sk_tempo_fim = map_option fst tempo_fim,
                  FatoAbsenteismo.codigo_empresa = dict_get abs_data ''EMPRESA'' (PyInt 0),
                  FatoAbsenteismo.unidade = dict_get abs_data ''UNIDADE'' PyNone,
                  FatoAbsenteismo.setor = dict_get abs_data ''SETOR'' PyNone,
                  FatoAbsenteismo.data_nascimento =
                    db_parse_date (dict_get abs_data ''DT_NASCIMENTO'' PyNone),
                  FatoAbsenteismo.sexo = dict_get abs_data ''SEXO'' PyNone,
                  FatoAbsenteismo.matricula_funcionario =
                    dict_get abs_data ''MATRICULA_FUNC'' PyNone,
                  FatoAbsenteismo.tipo_atestado = dict_get abs_data ''TIPO_ATESTADO'' PyNone,
                  FatoAbsenteismo.data_inicio_atestado = data_inicio,
                  FatoAbsenteismo.data_fim_atestado = data_fim,
                  FatoAbsenteismo.dias_afastados =
                    dict_get abs_data ''DIAS_AFASTADOS'' (PyInt 0)\<rparr>)"

text \<open>
  The loop, with the list of facts and the log of warnings (the rows skipped). A raise
  ends it; the warnings logged until then stay logged.
\<close>

fun absenteismo_loop ::
  "database \<Rightarrow> py_dict list \<Rightarrow> FatoAbsenteismo list \<Rightarrow> py_dict list \<Rightarrow>
     (py_error + FatoAbsenteismo list) \<times> py_dict list" where
  "absenteismo_loop db [] absenteismo_records log = (Inr absenteismo_records, log)"
| "absenteismo_loop db (abs_data # rest) absenteismo_records log =
     (case absenteismo_of db abs_data of
        Raised e \<Rightarrow> (Inl e, log)
      | Skipped \<Rightarrow> absenteismo_loop db rest absenteismo_records (log @ [abs_data])
      | Built absenteismo \<Rightarrow>
          absenteismo_loop db rest (absenteismo_records @ [absenteismo]) log)"

text \<open>The \<^verbatim>\<open>nullable=False\<close> columns of \<^verbatim>\<open>fato_absenteismo\<close> that the loader can leave NULL.\<close>

definition fato_insertable :: "FatoAbsenteismo \<Rightarrow> bool" where
  "fato_insertable a =
     (FatoAbsenteismo.sk_tempo_inicio a \<noteq> None \<and>
      FatoAbsenteismo.codigo_empresa a \<noteq> PyNone \<and>
      FatoAbsenteismo.data_nascimento a \<noteq> None \<and>
      FatoAbsenteismo.sexo a \<noteq> PyNone \<and>
      FatoAbsenteismo.tipo_atestado a \<noteq> PyNone \<and>
      FatoAbsenteismo.data_inicio_atestado a \<noteq> None)"

definition load_absenteismo ::
  "database \<Rightarrow> py_dict list \<Rightarrow> py_error option \<times> database \<times> py_dict list" where
  "load_absenteismo db absenteismo_data =
     (case absenteismo_loop db absenteismo_data [] [] of
        (Inl e, log) \<Rightarrow> (Some e, db, log)
      | (Inr absenteismo_records, log) \<Rightarrow>
          if list_all fato_insertable absenteismo_records
          then (None,
                db\<lparr>fato_absenteismo := insert_rows (fato_absenteismo db) absenteismo_records\<rparr>,
                log)
          else (Some IntegrityError, db, log))"


section \<open>Verified properties\<close>

subsection \<open>Document expiration: status and flags\<close>

lemma date_diff_days_example: "date_diff_days \<lparr>year = 2024, month = 1, day = 21\<rparr> \<lparr>year = 2024, month = 1, day = 1\<rparr> = 20"
  by (simp add: date_diff_days_def toordinal_def days_before_year_def days_before_month_def is_leap_def)

lemma categorize_status_ranges:
  "(categorize_status (Some n) = ''VENCIDO'' \<longleftrightarrow> n < 0) \<and>
   (categorize_status (Some n) = ''CRITICO'' \<longleftrightarrow> 0 \<le> n \<and> n \<le> 15) \<and>
   (categorize_status (Some n) = ''ATENCAO'' \<longleftrightarrow> 16 \<le> n \<and> n \<le> 30) \<and>
   (categorize_status (Some n) = ''ALERTA'' \<longleftrightarrow> 31 \<le> n \<and> n \<le> 60) \<and>
   (categorize_status (Some n) = ''OK'' \<longleftrightarrow> 60 < n) \<and>
   categorize_status (Some n) \<noteq> ''SEM_DATA''"
  by (simp add: categorize_status_def)

text \<open>
  Claim C8. For every document-expiration row, the days to expiry are the expiry date minus
  today, and the status is VENCIDO (expired) below 0, CRITICO (critical) for 0..15, ATENCAO
  (the higher warning) for 16..30, ALERTA (the lower warning) for 31..60 and OK above 60;
  a row without expiry date gets no day count and the category SEM_DATA (no date), which no
  row with a date ever gets. The boundary inputs -1, 0, 15, 16, 30, 31, 60, 61 and None are
  classified as listed.
\<close>

theorem vencimento_status_classification:
  assumes "i < length data"
  shows "let r = calculate_vencimento_metrics today data ! i in
     (case data ! i of
        None \<Rightarrow> dias_para_vencimento r = None \<and> status_vencimento r = ''SEM_DATA''
      | Some v \<Rightarrow>
          (let n = date_diff_days v today in
           dias_para_vencimento r = Some n \<and>
           (status_vencimento r = ''VENCIDO'' \<longleftrightarrow> n < 0) \<and>
           (status_vencimento r = ''CRITICO'' \<longleftrightarrow> 0 \<le> n \<and> n \<le> 15) \<and>
           (status_vencimento r = ''ATENCAO'' \<longleftrightarrow> 16 \<le> n \<and> n \<le> 30) \<and>
           (status_vencimento r = ''ALERTA'' \<longleftrightarrow> 31 \<le> n \<and> n \<le> 60) \<and>
           (status_vencimento r = ''OK'' \<longleftrightarrow> 60 < n) \<and>
           status_vencimento r \<noteq> ''SEM_DATA'')) \<and>
     map categorize_status [Some (-1), Some 0, Some 15, Some 16, Some 30, Some 31, Some 60, Some 61, None]
       = [''VENCIDO'', ''CRITICO'', ''CRITICO'', ''ATENCAO'', ''ATENCAO'', ''ALERTA'', ''ALERTA'', ''OK'', ''SEM_DATA'']"
proof -
  have b: "map categorize_status [Some (-1), Some 0, Some 15, Some 16, Some 30, Some 31, Some 60, Some 61, None]
       = [''VENCIDO'', ''CRITICO'', ''CRITICO'', ''ATENCAO'', ''ATENCAO'', ''ALERTA'', ''ALERTA'', ''OK'', ''SEM_DATA'']"
    by (simp add: categorize_status_def)
  have r: "calculate_vencimento_metrics today data ! i = vencimento_metrics_row today (data ! i)"
    using assms by (simp add: calculate_vencimento_metrics_def)
  show ?thesis
  proof (cases "data ! i")
    case None
    then show ?thesis using b r
      by (simp add: vencimento_metrics_row_def dias_para_def categorize_status_def)
  next
    case (Some v)
    then show ?thesis using b r categorize_status_ranges [of "date_diff_days v today"]
      by (simp add: vencimento_metrics_row_def dias_para_def Let_def)
  qed
qed

theorem vencimento_status_classification_witness:
  "0 < length [Some \<lparr>year = 2024, month = 1, day = 21\<rparr>] \<and>
   dias_para_vencimento (calculate_vencimento_metrics \<lparr>year = 2024, month = 1, day = 1\<rparr>
      [Some \<lparr>year = 2024, month = 1, day = 21\<rparr>] ! 0) = Some 20 \<and>
   status_vencimento (calculate_vencimento_metrics \<lparr>year = 2024, month = 1, day = 1\<rparr>
      [Some \<lparr>year = 2024, month = 1, day = 21\<rparr>] ! 0) = ''ATENCAO''"
  using vencimento_status_classification [of 0 "[Some \<lparr>year = 2024, month = 1, day = 21\<rparr>]"
      "\<lparr>year = 2024, month = 1, day = 1\<rparr>"] date_diff_days_example
  by (simp add: Let_def)

text \<open>
  Claim C10. The flag \<^verbatim>\<open>critico\<close> of a row is set exactly when its day count exists and
  lies in 0..30; so for a day count in 16..30 the flag is set while the status of the same
  row is ATENCAO, not CRITICO.
\<close>

theorem critico_flag_vs_status:
  assumes "i < length data"
  shows "let r = calculate_vencimento_metrics today data ! i in
     (critico r \<longleftrightarrow> (\<exists>n. dias_para_vencimento r = Some n \<and> 0 \<le> n \<and> n \<le> 30)) \<and>
     (\<forall>n. dias_para_vencimento r = Some n \<and> 16 \<le> n \<and> n \<le> 30 \<longrightarrow>
          critico r \<and> status_vencimento r = ''ATENCAO'' \<and> status_vencimento r \<noteq> ''CRITICO'')"
proof -
  have r: "calculate_vencimento_metrics today data ! i = vencimento_metrics_row today (data ! i)"
    using assms by (simp add: calculate_vencimento_metrics_def)
  show ?thesis
    unfolding r
    by (cases "data ! i")
       (auto simp: vencimento_metrics_row_def dias_para_def Let_def na_cmp_def categorize_status_def)
qed


theorem critico_flag_vs_status_witness:
  "0 < length [Some \<lparr>year = 2024, month = 1, day = 21\<rparr>] \<and>
   critico (calculate_vencimento_metrics \<lparr>year = 2024, month = 1, day = 1\<rparr>
      [Some \<lparr>year = 2024, month = 1, day = 21\<rparr>] ! 0) \<and>
   status_vencimento (calculate_vencimento_metrics \<lparr>year = 2024, month = 1, day = 1\<rparr>
      [Some \<lparr>year = 2024, month = 1, day = 21\<rparr>] ! 0) = ''ATENCAO''"
proof -
  have d: "dias_para_vencimento (calculate_vencimento_metrics \<lparr>year = 2024, month = 1, day = 1\<rparr>
      [Some \<lparr>year = 2024, month = 1, day = 21\<rparr>] ! 0) = Some 20"
    using date_diff_days_example by (simp add: calculate_vencimento_metrics_def vencimento_metrics_row_def dias_para_def Let_def)
  show ?thesis
    using critico_flag_vs_status [of 0 "[Some \<lparr>year = 2024, month = 1, day = 21\<rparr>]"
      "\<lparr>year = 2024, month = 1, day = 1\<rparr>"] d
    by (simp add: Let_def)
qed

subsection \<open>CPF validation\<close>

lemma replicate_11: "replicate 11 c = [c, c, c, c, c, c, c, c, c, c, c]"
  by (simp add: eval_nat_numeral)

lemma length_11_D:
  "length xs = 11 \<Longrightarrow> \<exists>a b c d e f g h i j k. xs = [a, b, c, d, e, f, g, h, i, j, k]"
  by (auto simp: eval_nat_numeral length_Suc_conv)

lemma upt_2_11: "[2..<11] = [2, 3, 4, 5, 6, 7, 8, 9, 10]"
  by simp

lemma upt_2_12: "[2..<12] = [2, 3, 4, 5, 6, 7, 8, 9, 10, 11]"
  by simp

lemma is_digit_cases:
  "is_digit c \<longleftrightarrow> c = CHR ''0'' \<or> c = CHR ''1'' \<or> c = CHR ''2'' \<or> c = CHR ''3'' \<or> c = CHR ''4'' \<or>
     c = CHR ''5'' \<or> c = CHR ''6'' \<or> c = CHR ''7'' \<or> c = CHR ''8'' \<or> c = CHR ''9''"
  by (auto simp: is_digit_def)

lemma int_of_char_range: "is_digit c \<Longrightarrow> 0 \<le> int_of_char c \<and> int_of_char c \<le> 9"
  by (auto simp: is_digit_cases int_of_char_def)

lemma int_of_char_inj: "is_digit c \<Longrightarrow> is_digit d \<Longrightarrow> int_of_char c = int_of_char d \<longleftrightarrow> c = d"
  by (auto simp: is_digit_cases int_of_char_def)

lemma str_int_digit: "is_digit c \<Longrightarrow> str_int (int_of_char c) = [c]"
  by (auto simp: is_digit_cases int_of_char_def str_int_def nat_to_str.simps digit_char_def)

lemma str_int_single:
  assumes "is_digit c" "0 \<le> n" "n \<le> 9"
  shows "str_int n = [c] \<longleftrightarrow> int_of_char c = n"
proof -
  have n: "n = 0 \<or> n = 1 \<or> n = 2 \<or> n = 3 \<or> n = 4 \<or> n = 5 \<or> n = 6 \<or> n = 7 \<or> n = 8 \<or> n = 9"
    using assms by arith
  have s: "str_int n = [digit_char (nat n)]"
    using assms by (simp add: str_int_def nat_to_str.simps)
  have c: "c = CHR ''0'' \<or> c = CHR ''1'' \<or> c = CHR ''2'' \<or> c = CHR ''3'' \<or> c = CHR ''4'' \<or>
     c = CHR ''5'' \<or> c = CHR ''6'' \<or> c = CHR ''7'' \<or> c = CHR ''8'' \<or> c = CHR ''9''"
    using assms(1) by (simp add: is_digit_cases)
  show ?thesis
    unfolding s using n
    by (elim disjE) (use c in \<open>auto simp: int_of_char_def digit_char_def\<close>)
qed

lemma check_range: "0 \<le> (if (t::int) mod 11 < 2 then 0 else 11 - t mod 11) \<and>
   (if t mod 11 < 2 then 0 else 11 - t mod 11) \<le> 9"
  by auto

lemma str_int_len1: "0 \<le> n \<Longrightarrow> n \<le> 9 \<Longrightarrow> \<exists>c. str_int n = [c]"
  by (simp add: str_int_def nat_to_str.simps)


lemma calculate_digit_9:
  "calculate_digit [a, b, c, d, e, f, g, h, i] =
     weighted_check_digit (map int_of_char [a, b, c, d, e, f, g, h, i])"
  by (simp add: calculate_digit_def weighted_check_digit_def Let_def)

lemma calculate_digit_10:
  "calculate_digit [a, b, c, d, e, f, g, h, i, j] =
     weighted_check_digit (map int_of_char [a, b, c, d, e, f, g, h, i, j])"
  by (simp add: calculate_digit_def weighted_check_digit_def Let_def)

lemma weighted_check_digit_range:
  "0 \<le> weighted_check_digit ds \<and> weighted_check_digit ds \<le> 9"
  unfolding weighted_check_digit_def Let_def by (rule check_range)

lemma two_digits_eq:
  assumes "is_digit j" "is_digit k" "0 \<le> m" "m \<le> 9" "0 \<le> n" "n \<le> 9"
  shows "[j, k] = str_int m @ str_int n \<longleftrightarrow> m = int_of_char j \<and> n = int_of_char k"
proof -
  obtain x where x: "str_int m = [x]" using str_int_len1 [of m] assms by blast
  obtain y where y: "str_int n = [y]" using str_int_len1 [of n] assms by blast
  have "x = j \<longleftrightarrow> int_of_char j = m"
    using str_int_single [OF assms(1) assms(3) assms(4)] x by auto
  moreover have "y = k \<longleftrightarrow> int_of_char k = n"
    using str_int_single [OF assms(2) assms(5) assms(6)] y by auto
  ultimately show ?thesis using x y by auto
qed

lemma all_same_11:
  assumes "list_all is_digit [a, b, c, d, e, f, g, h, i, j, k]"
  shows "[a, b, c, d, e, f, g, h, i, j, k] = replicate 11 a \<longleftrightarrow>
     list_all (\<lambda>x. x = int_of_char a) (map int_of_char [a, b, c, d, e, f, g, h, i, j, k])"
  using assms by (simp add: replicate_11 int_of_char_inj)

lemma validate_cpf_refines:
  "validate_cpf (Some s) \<longleftrightarrow> national_id_ok s"
proof (cases "length (filter is_digit s) = 11")
  case False
  then show ?thesis
    by (auto simp: validate_cpf_def national_id_ok_def Let_def)
next
  case True
  then obtain a b c d e f g h i j k where
    cpf: "filter is_digit s = [a, b, c, d, e, f, g, h, i, j, k]"
    using length_11_D [OF True] by auto
  have "list_all is_digit (filter is_digit s)"
    by (simp add: list_all_iff)
  then have dig: "list_all is_digit [a, b, c, d, e, f, g, h, i, j, k]"
    using cpf by simp
  have ne: "s \<noteq> []" using cpf by auto
  have jk: "is_digit j" "is_digit k" using dig by simp_all
  note r9 = weighted_check_digit_range [of "map int_of_char [a, b, c, d, e, f, g, h, i]"]
  note r10 = weighted_check_digit_range [of "map int_of_char [a, b, c, d, e, f, g, h, i, j]"]
  have t: "[j, k] = str_int (weighted_check_digit (map int_of_char [a, b, c, d, e, f, g, h, i])) @
                 str_int (weighted_check_digit (map int_of_char [a, b, c, d, e, f, g, h, i, j]))
     \<longleftrightarrow> weighted_check_digit (map int_of_char [a, b, c, d, e, f, g, h, i]) = int_of_char j \<and>
         weighted_check_digit (map int_of_char [a, b, c, d, e, f, g, h, i, j]) = int_of_char k"
    using two_digits_eq [OF jk] r9 r10 by blast
  have v: "validate_cpf (Some s) \<longleftrightarrow>
      [a, b, c, d, e, f, g, h, i, j, k] \<noteq> replicate 11 a \<and>
      [j, k] = str_int (calculate_digit [a, b, c, d, e, f, g, h, i]) @
               str_int (calculate_digit [a, b, c, d, e, f, g, h, i, j])"
    using ne by (simp add: validate_cpf_def cpf Let_def)
  have n: "national_id_ok s \<longleftrightarrow>
      \<not> list_all (\<lambda>x. x = int_of_char a) (map int_of_char [a, b, c, d, e, f, g, h, i, j, k]) \<and>
      weighted_check_digit (map int_of_char [a, b, c, d, e, f, g, h, i]) = int_of_char j \<and>
      weighted_check_digit (map int_of_char [a, b, c, d, e, f, g, h, i, j]) = int_of_char k"
    by (simp add: national_id_ok_def cpf Let_def)
  show ?thesis
    unfolding v n calculate_digit_9 calculate_digit_10 t all_same_11 [OF dig] by blast
qed


lemmas cpf_eval = validate_cpf_def is_digit_def calculate_digit_def int_of_char_def str_int_def
  nat_to_str.simps digit_char_def Let_def replicate_11

lemma known_cpf_mutations:
  assumes "i < 11" "is_digit c" "c \<noteq> ''11144477735'' ! i"
  shows "\<not> validate_cpf (Some (''11144477735''[i := c]))"
proof -
  have i: "i = 0 \<or> i = 1 \<or> i = 2 \<or> i = 3 \<or> i = 4 \<or> i = 5 \<or> i = 6 \<or> i = 7 \<or> i = 8 \<or> i = 9 \<or> i = 10"
    using assms(1) by arith
  have c: "c = CHR ''0'' \<or> c = CHR ''1'' \<or> c = CHR ''2'' \<or> c = CHR ''3'' \<or> c = CHR ''4'' \<or>
     c = CHR ''5'' \<or> c = CHR ''6'' \<or> c = CHR ''7'' \<or> c = CHR ''8'' \<or> c = CHR ''9''"
    using assms(2) by (simp add: is_digit_cases)
  show ?thesis
    using assms(3) i c
    by (elim disjE; simp add: cpf_eval)
qed

text \<open>
  Claim C6. For every input string, \<^verbatim>\<open>validate_cpf\<close> strips the non-digits and accepts
  exactly when 11 digits remain, they are not all identical and both check digits match the
  trailing two digits; an absent input is rejected; the identifier 11144477735 is accepted
  and replacing any one of its digits by a different digit makes it rejected.
\<close>

theorem validate_cpf_correct:
  "(validate_cpf (Some s) \<longleftrightarrow> national_id_ok s) \<and>
   \<not> validate_cpf None \<and>
   validate_cpf (Some ''11144477735'') \<and>
   (\<forall>i<11. \<forall>c. is_digit c \<and> c \<noteq> ''11144477735'' ! i \<longrightarrow>
        \<not> validate_cpf (Some (''11144477735''[i := c])))"
proof -
  have "validate_cpf (Some ''11144477735'')"
    by (simp add: cpf_eval)
  moreover have "\<not> validate_cpf None"
    by (simp add: validate_cpf_def)
  ultimately show ?thesis
    using validate_cpf_refines [of s] known_cpf_mutations by blast
qed

theorem validate_cpf_correct_witness:
  "national_id_ok ''111.444.777-35'' \<and> (0::nat) < 11 \<and> is_digit (CHR ''2'') \<and>
   CHR ''2'' \<noteq> ''11144477735'' ! 0 \<and> \<not> validate_cpf (Some ''21144477735'')"
proof -
  have v: "validate_cpf (Some ''111.444.777-35'')"
    by (simp add: cpf_eval)
  have d: "is_digit (CHR ''2'')" "CHR ''2'' \<noteq> ''11144477735'' ! 0"
    by (simp_all add: is_digit_def)
  have u: "''11144477735''[0 := CHR ''2''] = ''21144477735''"
    by simp
  show ?thesis
    using validate_cpf_correct [of "''111.444.777-35''"] v d u by fastforce
qed

subsection \<open>The time dimension\<close>

declare tempo_loop.simps [simp del]

lemma data_completa_tempo_record [simp]: "data_completa (tempo_record d) = d"
  by (simp add: tempo_record_def Let_def)

lemma date_lt_trans: "date_lt a b \<Longrightarrow> date_lt b c \<Longrightarrow> date_lt a c"
  by (auto simp: date_lt_def)

lemma date_lt_irrefl: "\<not> date_lt a a"
  by (simp add: date_lt_def)

lemma next_date_greater: "next_date c = Inr n \<Longrightarrow> date_lt c n"
proof -
  assume a: "next_date c = Inr n"
  show ?thesis
  proof (cases "day c < 28")
    case True
    with a show ?thesis
      by (auto simp: next_date_def mk_date_def date_lt_def Let_def split: if_splits)
  next
    case False
    with a have n: "year n = year c + month c div 12" "month n = month c mod 12 + 1"
      by (auto simp: next_date_def mk_date_def Let_def split: if_splits)
    show ?thesis
    proof (cases "month c < 12")
      case True
      then show ?thesis using n by (simp add: date_lt_def)
    next
      case False
      then have "1 \<le> month c div 12" by (simp add: div_greater_zero_iff)
      then show ?thesis using n by (simp add: date_lt_def)
    qed
  qed
qed

lemma tempo_loop_sorted:
  "tempo_loop c e acc = Inr recs \<Longrightarrow>
   sorted_wrt date_lt (map data_completa acc) \<Longrightarrow>
   list_all (\<lambda>r. date_lt (data_completa r) c) acc \<Longrightarrow>
   sorted_wrt date_lt (map data_completa recs)"
proof (induction c e acc rule: tempo_loop.induct)
  case (1 c e acc)
  show ?case
  proof (cases "date_le c e")
    case False
    with "1.prems" show ?thesis by (simp add: tempo_loop.simps [of c e acc])
  next
    case True
    with "1.prems"(1) obtain n where n: "next_date c = Inr n"
      and r: "tempo_loop n e (acc @ [tempo_record c]) = Inr recs"
      by (auto simp: tempo_loop.simps [of c e acc] split: sum.splits)
    have lt: "date_lt c n" using n by (rule next_date_greater)
    have s: "sorted_wrt date_lt (map data_completa (acc @ [tempo_record c]))"
      using "1.prems"(2,3) by (auto simp: sorted_wrt_append list_all_iff)
    have b: "list_all (\<lambda>r. date_lt (data_completa r) n) (acc @ [tempo_record c])"
      using "1.prems"(3) lt by (auto simp: list_all_iff intro: date_lt_trans)
    show ?thesis using "1.IH" [OF True n r s b] .
  qed
qed

lemma sorted_wrt_date_lt_distinct: "sorted_wrt date_lt ds \<Longrightarrow> distinct ds"
  by (induction ds) (auto simp: date_lt_irrefl)

lemma tempo_loop_distinct:
  "tempo_loop s e [] = Inr recs \<Longrightarrow> distinct (map data_completa recs)"
  using tempo_loop_sorted [of s e "[]" recs] by (simp add: sorted_wrt_date_lt_distinct)

lemma tempo_loop_acc: "tempo_loop c e acc = Inr recs \<Longrightarrow> set acc \<subseteq> set recs"
proof (induction c e acc rule: tempo_loop.induct)
  case (1 c e acc)
  show ?case
  proof (cases "date_le c e")
    case False
    with "1.prems" show ?thesis by (simp add: tempo_loop.simps [of c e acc])
  next
    case True
    with "1.prems" obtain n where n: "next_date c = Inr n"
      and r: "tempo_loop n e (acc @ [tempo_record c]) = Inr recs"
      by (auto simp: tempo_loop.simps [of c e acc] split: sum.splits)
    from "1.IH" [OF True n r] show ?thesis by simp
  qed
qed

lemma tempo_loop_start:
  assumes "date_le s e" and "tempo_loop s e [] = Inr recs"
  shows "s \<in> set (map data_completa recs)"
proof -
  from assms obtain n where "next_date s = Inr n"
    and r: "tempo_loop n e ([] @ [tempo_record s]) = Inr recs"
    by (auto simp: tempo_loop.simps [of s e "[]"] split: sum.splits)
  from tempo_loop_acc [OF r] have "tempo_record s \<in> set recs" by simp
  then have "data_completa (tempo_record s) \<in> set (map data_completa recs)"
    by (simp only: set_map) (rule imageI)
  then show ?thesis by simp
qed

lemma tempo_dates_insert_rows:
  "tempo_dates (insert_rows table new) = tempo_dates table @ map data_completa new"
proof -
  have "map snd (zip [next_key table ..< next_key table + length new] new) = new"
    by (simp add: map_snd_zip)
  then have "map (\<lambda>row. data_completa (snd row))
       (zip [next_key table ..< next_key table + length new] new) = map data_completa new"
    by (metis (no_types, lifting) map_map o_def map_eq_conv)
  then show ?thesis
    by (simp add: tempo_dates_def insert_rows_def)
qed

lemma load_dim_tempo_cases:
  assumes "tempo_loop s e [] = Inr recs"
  shows "load_dim_tempo table s e =
     (if list_ex (\<lambda>d. d \<in> set (tempo_dates table)) (map data_completa recs)
      then (Some IntegrityError, table) else (None, insert_rows table recs))"
  using assms tempo_loop_distinct [OF assms]
  by (simp add: load_dim_tempo_def commit_dim_tempo_def Let_def)

lemmas date_eval = next_date_def mk_date_def valid_date_def date_le_def days_in_month_def
  is_leap_def Let_def

lemma tempo_loop_feb_2024:
  "tempo_loop \<lparr>year = 2024, month = 2, day = 27\<rparr> \<lparr>year = 2024, month = 3, day = 1\<rparr> [] =
     Inr [tempo_record \<lparr>year = 2024, month = 2, day = 27\<rparr>,
          tempo_record \<lparr>year = 2024, month = 2, day = 28\<rparr>,
          tempo_record \<lparr>year = 2024, month = 3, day = 1\<rparr>]"
  by (simp add: tempo_loop.simps date_eval)

lemma tempo_loop_mar_2_3:
  "tempo_loop \<lparr>year = 2024, month = 3, day = 2\<rparr> \<lparr>year = 2024, month = 3, day = 3\<rparr> [] =
     Inr [tempo_record \<lparr>year = 2024, month = 3, day = 2\<rparr>,
          tempo_record \<lparr>year = 2024, month = 3, day = 3\<rparr>]"
  by (simp add: tempo_loop.simps date_eval)

lemma tempo_loop_mar_3_4:
  "tempo_loop \<lparr>year = 2024, month = 3, day = 3\<rparr> \<lparr>year = 2024, month = 3, day = 4\<rparr> [] =
     Inr [tempo_record \<lparr>year = 2024, month = 3, day = 3\<rparr>,
          tempo_record \<lparr>year = 2024, month = 3, day = 4\<rparr>]"
  by (simp add: tempo_loop.simps date_eval)

lemma first_load_mar_2_3:
  "load_dim_tempo [] \<lparr>year = 2024, month = 3, day = 2\<rparr> \<lparr>year = 2024, month = 3, day = 3\<rparr> =
     (None, [(1, tempo_record \<lparr>year = 2024, month = 3, day = 2\<rparr>),
             (2, tempo_record \<lparr>year = 2024, month = 3, day = 3\<rparr>)])"
  unfolding load_dim_tempo_cases [OF tempo_loop_mar_2_3]
  by (simp add: tempo_dates_def insert_rows_def next_key_def upt_rec [of 1 3] upt_rec [of 2 3])

text \<open>
  Claim C2 (the code departs from it). The load over 2024-02-27 .. 2024-03-01 succeeds and
  stores three rows, for 27 and 28 February and 1 March: the leap day 2024-02-29, a valid
  date inside the range, gets no row. The step after a day 28 or later goes to the first of
  the next month, so the days 29, 30 and 31 are generated only when the range starts on them.
\<close>

theorem load_dim_tempo_skips_leap_day:
  "load_dim_tempo [] \<lparr>year = 2024, month = 2, day = 27\<rparr> \<lparr>year = 2024, month = 3, day = 1\<rparr> =
     (None, [(1, tempo_record \<lparr>year = 2024, month = 2, day = 27\<rparr>),
             (2, tempo_record \<lparr>year = 2024, month = 2, day = 28\<rparr>),
             (3, tempo_record \<lparr>year = 2024, month = 3, day = 1\<rparr>)]) \<and>
   valid_date \<lparr>year = 2024, month = 2, day = 29\<rparr> \<and>
   date_le \<lparr>year = 2024, month = 2, day = 27\<rparr> \<lparr>year = 2024, month = 2, day = 29\<rparr> \<and>
   date_le \<lparr>year = 2024, month = 2, day = 29\<rparr> \<lparr>year = 2024, month = 3, day = 1\<rparr> \<and>
   \<lparr>year = 2024, month = 2, day = 29\<rparr> \<notin> set (tempo_dates (snd (load_dim_tempo []
       \<lparr>year = 2024, month = 2, day = 27\<rparr> \<lparr>year = 2024, month = 3, day = 1\<rparr>)))"
  unfolding load_dim_tempo_cases [OF tempo_loop_feb_2024]
  by (simp add: tempo_dates_def insert_rows_def next_key_def upt_rec [of 1 4] upt_rec [of 2 4]
      upt_rec [of 3 4] valid_date_def date_le_def days_in_month_def is_leap_def)

text \<open>
  Claim C3, as stated, fails: after loading 2024-03-02 .. 2024-03-03 into the empty table,
  the load of the overlapping range 2024-03-03 .. 2024-03-04 raises IntegrityError.
\<close>

theorem load_dim_tempo_rerun_counterexample:
  "fst (load_dim_tempo [] \<lparr>year = 2024, month = 3, day = 2\<rparr> \<lparr>year = 2024, month = 3, day = 3\<rparr>) = None \<and>
   fst (load_dim_tempo
          (snd (load_dim_tempo [] \<lparr>year = 2024, month = 3, day = 2\<rparr> \<lparr>year = 2024, month = 3, day = 3\<rparr>))
          \<lparr>year = 2024, month = 3, day = 3\<rparr> \<lparr>year = 2024, month = 3, day = 4\<rparr>) = Some IntegrityError"
  unfolding first_load_mar_2_3 fst_conv snd_conv load_dim_tempo_cases [OF tempo_loop_mar_3_4]
  by (simp add: tempo_dates_def)

text \<open>
  Claim C3, amended. The load inserts and never upserts. On a table with one row per date,
  a run either fails and leaves the table as it was, or appends its rows; either way the
  table still has one row per date. When the loop itself completes, the run fails, with
  IntegrityError, exactly when one of the dates it generated is already in the table, and
  otherwise it succeeds and appends one row per generated date. A run over a range that is
  not empty generates its start date, so it fails when its start date is already in the
  table; in particular, repeating a run that succeeded, over the same range, fails with
  IntegrityError and leaves the table as the first run left it.
\<close>

theorem load_dim_tempo_rerun:
  assumes "distinct (tempo_dates table)"
  shows "distinct (tempo_dates (snd (load_dim_tempo table s e))) \<and>
     (fst (load_dim_tempo table s e) \<noteq> None \<longrightarrow> snd (load_dim_tempo table s e) = table) \<and>
     (\<forall>recs. tempo_loop s e [] = Inr recs \<longrightarrow>
        (if \<exists>r \<in> set recs. data_completa r \<in> set (tempo_dates table)
         then load_dim_tempo table s e = (Some IntegrityError, table)
         else fst (load_dim_tempo table s e) = None \<and>
              tempo_dates (snd (load_dim_tempo table s e)) =
                tempo_dates table @ map data_completa recs)) \<and>
     (date_le s e \<and> s \<in> set (tempo_dates table) \<longrightarrow>
        fst (load_dim_tempo table s e) \<noteq> None) \<and>
     (date_le s e \<and> fst (load_dim_tempo table s e) = None \<longrightarrow>
        load_dim_tempo (snd (load_dim_tempo table s e)) s e =
          (Some IntegrityError, snd (load_dim_tempo table s e)))"
proof (cases "tempo_loop s e []")
  case (Inl err)
  then show ?thesis using assms by (simp add: load_dim_tempo_def)
next
  case (Inr recs)
  have d: "distinct (map data_completa recs)"
    using Inr by (rule tempo_loop_distinct)
  show ?thesis
  proof (cases "\<exists>r \<in> set recs. data_completa r \<in> set (tempo_dates table)")
    case True
    then have "list_ex (\<lambda>d. d \<in> set (tempo_dates table)) (map data_completa recs)"
      by (auto simp: list_ex_iff)
    then show ?thesis using assms Inr True
      by (simp add: load_dim_tempo_cases [OF Inr])
  next
    case False
    then have n: "\<not> list_ex (\<lambda>d. d \<in> set (tempo_dates table)) (map data_completa recs)"
      by (auto simp: list_ex_iff)
    have l: "load_dim_tempo table s e = (None, insert_rows table recs)"
      using n by (simp add: load_dim_tempo_cases [OF Inr])
    have dd: "distinct (tempo_dates table @ map data_completa recs)"
      using assms d False by auto
    have start: "date_le s e \<and> s \<in> set (tempo_dates table) \<longrightarrow>
        fst (load_dim_tempo table s e) \<noteq> None"
    proof
      assume a: "date_le s e \<and> s \<in> set (tempo_dates table)"
      then have "s \<in> set (map data_completa recs)"
        using tempo_loop_start [OF _ Inr] by simp
      with a False show "fst (load_dim_tempo table s e) \<noteq> None" by auto
    qed
    have again: "date_le s e \<and> fst (load_dim_tempo table s e) = None \<longrightarrow>
        load_dim_tempo (snd (load_dim_tempo table s e)) s e =
          (Some IntegrityError, snd (load_dim_tempo table s e))"
    proof
      assume a: "date_le s e \<and> fst (load_dim_tempo table s e) = None"
      then have m: "s \<in> set (map data_completa recs)"
        using tempo_loop_start [OF _ Inr] by simp
      then have "s \<in> set (tempo_dates (insert_rows table recs))"
        by (simp add: tempo_dates_insert_rows)
      with m have "list_ex (\<lambda>d. d \<in> set (tempo_dates (insert_rows table recs)))
          (map data_completa recs)"
        unfolding list_ex_iff by blast
      then show "load_dim_tempo (snd (load_dim_tempo table s e)) s e =
          (Some IntegrityError, snd (load_dim_tempo table s e))"
        unfolding l snd_conv by (simp add: load_dim_tempo_cases [OF Inr])
    qed
    have first: "distinct (tempo_dates (snd (load_dim_tempo table s e))) \<and>
     (fst (load_dim_tempo table s e) \<noteq> None \<longrightarrow> snd (load_dim_tempo table s e) = table) \<and>
     (\<forall>recs. tempo_loop s e [] = Inr recs \<longrightarrow>
        (if \<exists>r \<in> set recs. data_completa r \<in> set (tempo_dates table)
         then load_dim_tempo table s e = (Some IntegrityError, table)
         else fst (load_dim_tempo table s e) = None \<and>
              tempo_dates (snd (load_dim_tempo table s e)) =
                tempo_dates table @ map data_completa recs))"
      using dd Inr False n
      by (simp add: load_dim_tempo_cases [OF Inr] tempo_dates_insert_rows)
    show ?thesis
      using first start again by blast
  qed
qed

theorem load_dim_tempo_rerun_witness:
  "distinct (tempo_dates [(1, tempo_record \<lparr>year = 2024, month = 3, day = 2\<rparr>),
                          (2, tempo_record \<lparr>year = 2024, month = 3, day = 3\<rparr>)]) \<and>
   load_dim_tempo [(1, tempo_record \<lparr>year = 2024, month = 3, day = 2\<rparr>),
                   (2, tempo_record \<lparr>year = 2024, month = 3, day = 3\<rparr>)]
       \<lparr>year = 2024, month = 3, day = 3\<rparr> \<lparr>year = 2024, month = 3, day = 4\<rparr> =
     (Some IntegrityError, [(1, tempo_record \<lparr>year = 2024, month = 3, day = 2\<rparr>),
                            (2, tempo_record \<lparr>year = 2024, month = 3, day = 3\<rparr>)]) \<and>
   distinct (tempo_dates []) \<and>
   date_le \<lparr>year = 2024, month = 3, day = 2\<rparr> \<lparr>year = 2024, month = 3, day = 3\<rparr> \<and>
   fst (load_dim_tempo [] \<lparr>year = 2024, month = 3, day = 2\<rparr> \<lparr>year = 2024, month = 3, day = 3\<rparr>) =
     None \<and>
   load_dim_tempo
       (snd (load_dim_tempo [] \<lparr>year = 2024, month = 3, day = 2\<rparr> \<lparr>year = 2024, month = 3, day = 3\<rparr>))
       \<lparr>year = 2024, month = 3, day = 2\<rparr> \<lparr>year = 2024, month = 3, day = 3\<rparr> =
     (Some IntegrityError,
      snd (load_dim_tempo [] \<lparr>year = 2024, month = 3, day = 2\<rparr> \<lparr>year = 2024, month = 3, day = 3\<rparr>))"
proof -
  let ?t = "[(1::nat, tempo_record \<lparr>year = 2024, month = 3, day = 2\<rparr>),
             (2, tempo_record \<lparr>year = 2024, month = 3, day = 3\<rparr>)]"
  have d: "distinct (tempo_dates ?t)"
    by (simp add: tempo_dates_def)
  have m: "\<exists>r \<in> set [tempo_record \<lparr>year = 2024, month = 3, day = 3\<rparr>,
                       tempo_record \<lparr>year = 2024, month = 3, day = 4\<rparr>].
             data_completa r \<in> set (tempo_dates ?t)"
    by (simp add: tempo_dates_def)
  have overlap: "load_dim_tempo ?t \<lparr>year = 2024, month = 3, day = 3\<rparr>
      \<lparr>year = 2024, month = 3, day = 4\<rparr> = (Some IntegrityError, ?t)"
    using load_dim_tempo_rerun [OF d, of "\<lparr>year = 2024, month = 3, day = 3\<rparr>"
        "\<lparr>year = 2024, month = 3, day = 4\<rparr>"] tempo_loop_mar_3_4 m
    by (simp del: set_simps)
  have d0: "distinct (tempo_dates [])"
    by (simp add: tempo_dates_def)
  have le: "date_le \<lparr>year = 2024, month = 3, day = 2\<rparr> \<lparr>year = 2024, month = 3, day = 3\<rparr>"
    by (simp add: date_le_def)
  have ok: "fst (load_dim_tempo [] \<lparr>year = 2024, month = 3, day = 2\<rparr>
      \<lparr>year = 2024, month = 3, day = 3\<rparr>) = None"
    by (simp add: first_load_mar_2_3)
  have again: "load_dim_tempo
       (snd (load_dim_tempo [] \<lparr>year = 2024, month = 3, day = 2\<rparr> \<lparr>year = 2024, month = 3, day = 3\<rparr>))
       \<lparr>year = 2024, month = 3, day = 2\<rparr> \<lparr>year = 2024, month = 3, day = 3\<rparr> =
     (Some IntegrityError,
      snd (load_dim_tempo [] \<lparr>year = 2024, month = 3, day = 2\<rparr> \<lparr>year = 2024, month = 3, day = 3\<rparr>))"
    using load_dim_tempo_rerun [OF d0, of "\<lparr>year = 2024, month = 3, day = 2\<rparr>"
        "\<lparr>year = 2024, month = 3, day = 3\<rparr>"] le ok
    by blast
  show ?thesis
    using d overlap d0 le ok again by blast
qed

subsection \<open>Parsing and formatting dates\<close>

declare run_format.simps [simp del]

lemma digit_char_mod_cases:
  "k mod 10 = 0 \<or> k mod 10 = 1 \<or> k mod 10 = 2 \<or> k mod 10 = 3 \<or> k mod 10 = 4 \<or>
   k mod 10 = 5 \<or> k mod 10 = 6 \<or> k mod 10 = 7 \<or> k mod 10 = 8 \<or> k mod 10 = (9::nat)"
  by arith

lemma is_digit_digit_char [simp]: "is_digit (digit_char (k mod 10))"
  using digit_char_mod_cases [of k] by (auto simp: is_digit_def digit_char_def)

lemma digit_val_digit_char [simp]: "digit_val (digit_char (k mod 10)) = k mod 10"
  using digit_char_mod_cases [of k] by (auto simp: digit_val_def digit_char_def)

lemma digit_char_eq_zero [simp]: "digit_char (k mod 10) = CHR ''0'' \<longleftrightarrow> k mod 10 = 0"
  using digit_char_mod_cases [of k] by (auto simp: digit_char_def)

lemma digit_char_not_sep [simp]:
  "digit_char (k mod 10) \<noteq> CHR ''/''" "digit_char (k mod 10) \<noteq> CHR ''-''"
  "digit_char (k mod 10) \<noteq> CHR '' ''"
  using digit_char_mod_cases [of k] by (auto simp: digit_char_def)

lemma digit_char_not_space [simp]: "\<not> is_space (digit_char (k mod 10))"
  using digit_char_mod_cases [of k] by (auto simp: digit_char_def is_space_def)

lemma sep_not_digit [simp]: "\<not> is_digit (CHR ''/'')" "\<not> is_digit (CHR ''-'')" "\<not> is_digit (CHR '' '')"
  by (simp_all add: is_digit_def)

lemma digit_char_lt:
  assumes "k < 10"
  shows "is_digit (digit_char k)" "digit_val (digit_char k) = k"
    "digit_char k = CHR ''0'' \<longleftrightarrow> k = 0"
    "digit_char k \<noteq> CHR ''/''" "digit_char k \<noteq> CHR ''-''" "digit_char k \<noteq> CHR '' ''"
proof -
  have k: "k mod 10 = k" using assms by simp
  show "is_digit (digit_char k)" using is_digit_digit_char [of k] k by simp
  show "digit_val (digit_char k) = k" using digit_val_digit_char [of k] k by simp
  show "digit_char k = CHR ''0'' \<longleftrightarrow> k = 0" using digit_char_eq_zero [of k] k by simp
  show "digit_char k \<noteq> CHR ''/''" "digit_char k \<noteq> CHR ''-''" "digit_char k \<noteq> CHR '' ''"
    using digit_char_not_sep [of k] k by simp_all
qed

lemma two_digit_value: "n < 100 \<Longrightarrow> 10 * (n div 10 mod 10) + n mod 10 = (n::nat)"
proof -
  assume "n < 100"
  then have "n div 10 < 10" by simp
  then have "n div 10 mod 10 = n div 10" by simp
  then show ?thesis by simp
qed

lemma four_digit_value:
  assumes "n < 10000"
  shows "1000 * (n div 1000 mod 10) + 100 * (n div 100 mod 10) + 10 * (n div 10 mod 10) + n mod 10
     = (n::nat)"
proof -
  define a where "a = n div 10"
  define b where "b = a div 10"
  define c where "c = b div 10"
  have b: "n div 100 = b"
    using div_mult2_eq [of n 10 10] by (simp add: a_def b_def)
  have c: "n div 1000 = c"
    using div_mult2_eq [of n 100 10] b by (simp add: c_def)
  have "c < 10" using assms c by simp
  then have c': "c mod 10 = c" by simp
  have n: "n = 10 * a + n mod 10" by (simp add: a_def)
  have a: "a = 10 * b + a mod 10" by (simp add: b_def)
  have b': "b = 10 * c + b mod 10" by (simp add: c_def)
  have "1000 * c + 100 * (b mod 10) + 10 * (a mod 10) + n mod 10 = n"
    using n a b' by linarith
  then show ?thesis by (simp add: b c c' a_def)
qed

lemma mk_date_valid: "valid_date d \<Longrightarrow> mk_date (year d) (month d) (day d) = Inr d"
  by (cases d) (simp add: mk_date_def Let_def)

lemma valid_date_bounds:
  "valid_date d \<Longrightarrow>
   1 \<le> day d \<and> day d \<le> 31 \<and> day d < 100 \<and> 1 \<le> month d \<and> month d \<le> 12 \<and> month d < 100 \<and>
   1 \<le> year d \<and> year d < 10000"
  by (auto simp: valid_date_def days_in_month_def split: if_splits)

text \<open>Ways a format fails on a string, by the shape of both.\<close>

lemma run_d_sep_fail:
  assumes "is_digit a" "is_digit b" "c \<noteq> sep" "\<not> is_digit sep"
  shows "run_format (Pct_d # Lit sep # ds) (a # b # c # r) f = []"
proof -
  have "a \<noteq> CHR '' ''" "b \<noteq> sep" using assms by auto
  then show ?thesis using assms
    by (simp add: run_format.simps two_digits_def one_digit_def space_digit_def)
qed

lemma run_Y_nondigit_fail:
  assumes "\<not> is_digit a \<or> \<not> is_digit b \<or> \<not> is_digit c \<or> \<not> is_digit d"
  shows "run_format (Pct_Y # ds) (a # b # c # d # r) f = []"
  using assms by (auto simp: run_format.simps four_digits_def)

lemma run_Y_sep_fail:
  assumes "e \<noteq> sep"
  shows "run_format (Pct_Y # Lit sep # ds) (a # b # c # d # e # r) f = []"
  using assms by (simp add: run_format.simps four_digits_def)

lemma run_Y_m_fail:
  assumes "\<not> is_digit e"
  shows "run_format (Pct_Y # Pct_m # ds) (a # b # c # d # e # r) f = []"
  using assms
  by (simp add: run_format.simps four_digits_def two_digits_def one_digit_def split: list.splits)

lemma run_dmY_short_fail:
  assumes "is_digit a" "is_digit b" "is_digit c" "is_digit d"
  shows "run_format [Pct_d, Lit (CHR ''/''), Pct_m, Lit (CHR ''/''), Pct_Y]
           [a, b, CHR ''/'', c, d, CHR ''/'', e, g] f = []"
proof -
  have "b \<noteq> CHR ''/''" "d \<noteq> CHR ''/''" "a \<noteq> CHR '' ''" using assms by auto
  then show ?thesis
    by (simp add: run_format.simps two_digits_def one_digit_def space_digit_def four_digits_def)
qed

lemma strptime_no_match:
  "parse_format fmt = Some ds \<Longrightarrow>
   run_format ds s \<lparr>found_Y = 1900, found_m = 1, found_d = 1\<rparr> = [] \<Longrightarrow>
   strptime s fmt = Inl ValueError"
  by (simp add: strptime_def)

lemma parse_format_1:
  "parse_format ''%d/%m/%Y'' = Some [Pct_d, Lit (CHR ''/''), Pct_m, Lit (CHR ''/''), Pct_Y]"
  by simp

lemma parse_format_2:
  "parse_format ''%Y-%m-%d'' = Some [Pct_Y, Lit (CHR ''-''), Pct_m, Lit (CHR ''-''), Pct_d]"
  by simp

lemma parse_format_3:
  "parse_format ''%d-%m-%Y'' = Some [Pct_d, Lit (CHR ''-''), Pct_m, Lit (CHR ''-''), Pct_Y]"
  by simp

lemma parse_format_4: "parse_format ''%Y%m%d'' = Some [Pct_Y, Pct_m, Pct_d]"
  by simp

lemma parse_format_5:
  "parse_format ''%d/%m/%y'' = Some [Pct_d, Lit (CHR ''/''), Pct_m, Lit (CHR ''/''), Pct_y]"
  by simp

lemma parse_format_6:
  "parse_format ''%Y/%m/%d'' = Some [Pct_Y, Lit (CHR ''/''), Pct_m, Lit (CHR ''/''), Pct_d]"
  by simp

lemmas fmt_eval = strptime_def run_format.simps two_digits_def one_digit_def
  space_digit_def four_digits_def nat_of_digits_def

lemmas strftime_eval = strftime_def pad2_def pad4_def

text \<open>Each format on the string it wrote itself.\<close>

lemma strptime_own_1:
  assumes "valid_date d"
  shows "strptime (strftime d ''%d/%m/%Y'') ''%d/%m/%Y'' = Inr d"
  using valid_date_bounds [OF assms] mk_date_valid [OF assms]
  by (simp add: fmt_eval strftime_eval two_digit_value four_digit_value)

lemma strptime_own_2:
  assumes "valid_date d"
  shows "strptime (strftime d ''%Y-%m-%d'') ''%Y-%m-%d'' = Inr d"
  using valid_date_bounds [OF assms] mk_date_valid [OF assms]
  by (simp add: fmt_eval strftime_eval two_digit_value four_digit_value)

lemma strptime_own_3:
  assumes "valid_date d"
  shows "strptime (strftime d ''%d-%m-%Y'') ''%d-%m-%Y'' = Inr d"
  using valid_date_bounds [OF assms] mk_date_valid [OF assms]
  by (simp add: fmt_eval strftime_eval two_digit_value four_digit_value)

lemma strptime_own_4:
  assumes "valid_date d"
  shows "strptime (strftime d ''%Y%m%d'') ''%Y%m%d'' = Inr d"
  using valid_date_bounds [OF assms] mk_date_valid [OF assms]
  by (simp add: fmt_eval strftime_eval two_digit_value four_digit_value)

lemma strptime_own_6:
  assumes "valid_date d"
  shows "strptime (strftime d ''%Y/%m/%d'') ''%Y/%m/%d'' = Inr d"
  using valid_date_bounds [OF assms] mk_date_valid [OF assms]
  by (simp add: fmt_eval strftime_eval two_digit_value four_digit_value)

lemma strptime_own_5:
  assumes "valid_date d"
  shows "strptime (strftime d ''%d/%m/%y'') ''%d/%m/%y'' =
     mk_date (if year d mod 100 \<le> 68 then year d mod 100 + 2000 else year d mod 100 + 1900)
             (month d) (day d)"
proof -
  have k: "year d mod 100 div 10 < 10" by simp
  have v: "10 * (year d mod 100 div 10) + year d mod 10 = year d mod 100"
    using two_digit_value [of "year d mod 100"] by (simp add: mod_mod_cancel)
  show ?thesis
    using valid_date_bounds [OF assms] v
    by (simp add: fmt_eval strftime_eval two_digit_value digit_char_lt [OF k] mod_mod_cancel)
qed

text \<open>The formats tried before the right one fail on its string.\<close>

lemmas no_match =
  strptime_no_match [OF parse_format_1] strptime_no_match [OF parse_format_2]
  strptime_no_match [OF parse_format_3] strptime_no_match [OF parse_format_4]
  strptime_no_match [OF parse_format_5] strptime_no_match [OF parse_format_6]
  run_d_sep_fail run_Y_nondigit_fail run_Y_sep_fail run_Y_m_fail run_dmY_short_fail

lemma strftime_plain:
  "strftime d ''%d/%m/%Y'' \<noteq> []" "strip (strftime d ''%d/%m/%Y'') = strftime d ''%d/%m/%Y''"
  "strftime d ''%Y-%m-%d'' \<noteq> []" "strip (strftime d ''%Y-%m-%d'') = strftime d ''%Y-%m-%d''"
  "strftime d ''%d-%m-%Y'' \<noteq> []" "strip (strftime d ''%d-%m-%Y'') = strftime d ''%d-%m-%Y''"
  "strftime d ''%Y%m%d'' \<noteq> []" "strip (strftime d ''%Y%m%d'') = strftime d ''%Y%m%d''"
  "strftime d ''%d/%m/%y'' \<noteq> []" "strip (strftime d ''%d/%m/%y'') = strftime d ''%d/%m/%y''"
  "strftime d ''%Y/%m/%d'' \<noteq> []" "strip (strftime d ''%Y/%m/%d'') = strftime d ''%Y/%m/%d''"
  by (simp_all add: strftime_eval strip_def)

lemma others_fail_2:
  "strptime (strftime d ''%Y-%m-%d'') ''%d/%m/%Y'' = Inl ValueError"
  by (simp add: strftime_eval no_match)

lemma others_fail_3:
  "strptime (strftime d ''%d-%m-%Y'') ''%d/%m/%Y'' = Inl ValueError"
  "strptime (strftime d ''%d-%m-%Y'') ''%Y-%m-%d'' = Inl ValueError"
  by (simp_all add: strftime_eval no_match)

lemma others_fail_4:
  "strptime (strftime d ''%Y%m%d'') ''%d/%m/%Y'' = Inl ValueError"
  "strptime (strftime d ''%Y%m%d'') ''%Y-%m-%d'' = Inl ValueError"
  "strptime (strftime d ''%Y%m%d'') ''%d-%m-%Y'' = Inl ValueError"
  by (simp_all add: strftime_eval no_match)

lemma others_fail_5:
  "strptime (strftime d ''%d/%m/%y'') ''%d/%m/%Y'' = Inl ValueError"
  "strptime (strftime d ''%d/%m/%y'') ''%Y-%m-%d'' = Inl ValueError"
  "strptime (strftime d ''%d/%m/%y'') ''%d-%m-%Y'' = Inl ValueError"
  "strptime (strftime d ''%d/%m/%y'') ''%Y%m%d'' = Inl ValueError"
  "strptime (strftime d ''%d/%m/%y'') ''%Y/%m/%d'' = Inl ValueError"
  by (simp_all add: strftime_eval no_match)

lemma others_fail_6:
  "strptime (strftime d ''%Y/%m/%d'') ''%d/%m/%Y'' = Inl ValueError"
  "strptime (strftime d ''%Y/%m/%d'') ''%Y-%m-%d'' = Inl ValueError"
  "strptime (strftime d ''%Y/%m/%d'') ''%d-%m-%Y'' = Inl ValueError"
  "strptime (strftime d ''%Y/%m/%d'') ''%Y%m%d'' = Inl ValueError"
  "strptime (strftime d ''%Y/%m/%d'') ''%d/%m/%y'' = Inl ValueError"
  by (simp_all add: strftime_eval no_match)

lemma parse_date_four_digit_year:
  assumes "valid_date d"
  shows "parse_date (PyStr (strftime d ''%d/%m/%Y'')) = Some d"
    "parse_date (PyStr (strftime d ''%Y-%m-%d'')) = Some d"
    "parse_date (PyStr (strftime d ''%d-%m-%Y'')) = Some d"
    "parse_date (PyStr (strftime d ''%Y%m%d'')) = Some d"
    "parse_date (PyStr (strftime d ''%Y/%m/%d'')) = Some d"
  by (simp_all add: parse_date_def parse_date_formats_def strftime_plain
      others_fail_2 others_fail_3 others_fail_4 others_fail_6
      strptime_own_1 [OF assms] strptime_own_2 [OF assms] strptime_own_3 [OF assms]
      strptime_own_4 [OF assms] strptime_own_6 [OF assms])

lemma parse_date_two_digit_year:
  assumes "valid_date d"
  shows "parse_date (PyStr (strftime d ''%d/%m/%y'')) =
     (case mk_date (if year d mod 100 \<le> 68 then year d mod 100 + 2000 else year d mod 100 + 1900)
                   (month d) (day d) of
        Inl e \<Rightarrow> None | Inr x \<Rightarrow> Some x)"
  by (simp add: parse_date_def parse_date_formats_def strftime_plain others_fail_5
      strptime_own_5 [OF assms] split: sum.splits)

lemma two_digit_year_window:
  "(if y mod 100 \<le> 68 then y mod 100 + 2000 else y mod 100 + 1900) = y \<longleftrightarrow>
     1969 \<le> y \<and> y \<le> (2068::nat)"
proof -
  define q where "q = y div 100"
  define r where "r = y mod 100"
  have y: "y = 100 * q + r" and r: "r < 100"
    by (simp_all add: q_def r_def)
  show ?thesis
  proof (cases "r \<le> 68")
    case True
    have "r + 2000 = y \<longleftrightarrow> q = 20" using y by presburger
    moreover have "1969 \<le> y \<and> y \<le> 2068 \<longleftrightarrow> q = 20"
      using True y by presburger
    ultimately show ?thesis using True unfolding r_def [symmetric] by simp
  next
    case False
    have "r + 1900 = y \<longleftrightarrow> q = 19" using y by presburger
    moreover have "1969 \<le> y \<and> y \<le> 2068 \<longleftrightarrow> q = 19"
      using False r y by presburger
    ultimately show ?thesis using False unfolding r_def [symmetric] by simp
  qed
qed

text \<open>
  Claim C7, as stated, fails for the format DD/MM/YY: 2 March 1950 is written 02/03/50,
  which parses as 2 March 2050.
\<close>

theorem parse_date_roundtrip_counterexample:
  "valid_date \<lparr>year = 1950, month = 3, day = 2\<rparr> \<and>
   strftime \<lparr>year = 1950, month = 3, day = 2\<rparr> ''%d/%m/%y'' = ''02/03/50'' \<and>
   parse_date (PyStr (strftime \<lparr>year = 1950, month = 3, day = 2\<rparr> ''%d/%m/%y'')) =
     Some \<lparr>year = 2050, month = 3, day = 2\<rparr> \<and>
   parse_date (PyStr (strftime \<lparr>year = 1950, month = 3, day = 2\<rparr> ''%d/%m/%y'')) \<noteq>
     Some \<lparr>year = 1950, month = 3, day = 2\<rparr>"
proof -
  have v: "valid_date \<lparr>year = 1950, month = 3, day = 2\<rparr>"
    by (simp add: valid_date_def days_in_month_def)
  have s: "strftime \<lparr>year = 1950, month = 3, day = 2\<rparr> ''%d/%m/%y'' = ''02/03/50''"
    by (simp add: strftime_eval digit_char_def)
  have p: "parse_date (PyStr (strftime \<lparr>year = 1950, month = 3, day = 2\<rparr> ''%d/%m/%y'')) =
     Some \<lparr>year = 2050, month = 3, day = 2\<rparr>"
    unfolding parse_date_two_digit_year [OF v]
    by (simp add: mk_date_def valid_date_def days_in_month_def)
  show ?thesis using v s p by simp
qed

text \<open>
  Claim C7, amended. For every calendar date d, parsing the string written from d gives d
  again for the five formats with a four-digit year (DD/MM/YYYY, YYYY-MM-DD, DD-MM-YYYY,
  YYYYMMDD, YYYY/MM/DD); for DD/MM/YY it gives d again exactly when the year of d lies in
  1969..2068, the window a two-digit year is read into.
\<close>

theorem parse_date_roundtrip:
  assumes "valid_date d"
  shows "(\<forall>fmt \<in> set [''%d/%m/%Y'', ''%Y-%m-%d'', ''%d-%m-%Y'', ''%Y%m%d'', ''%Y/%m/%d''].
            parse_date (PyStr (strftime d fmt)) = Some d) \<and>
         (parse_date (PyStr (strftime d ''%d/%m/%y'')) = Some d \<longleftrightarrow>
            1969 \<le> year d \<and> year d \<le> 2068)"
proof -
  define Y where "Y = (if year d mod 100 \<le> 68 then year d mod 100 + 2000 else year d mod 100 + 1900)"
  have four: "\<forall>fmt \<in> set [''%d/%m/%Y'', ''%Y-%m-%d'', ''%d-%m-%Y'', ''%Y%m%d'', ''%Y/%m/%d''].
            parse_date (PyStr (strftime d fmt)) = Some d"
    using parse_date_four_digit_year [OF assms] by simp
  have "(case mk_date Y (month d) (day d) of Inl e \<Rightarrow> None | Inr x \<Rightarrow> Some x) = Some d
          \<longleftrightarrow> Y = year d"
  proof (cases "Y = year d")
    case True
    then show ?thesis using mk_date_valid [OF assms] by simp
  next
    case False
    have "mk_date Y (month d) (day d) \<noteq> Inr d"
    proof
      assume "mk_date Y (month d) (day d) = Inr d"
      then have "\<lparr>year = Y, month = month d, day = day d\<rparr> = d"
        by (auto simp: mk_date_def Let_def split: if_splits)
      then have "year \<lparr>year = Y, month = month d, day = day d\<rparr> = year d"
        by (rule arg_cong)
      then show False using False by simp
    qed
    then show ?thesis using False
      by (cases "mk_date Y (month d) (day d)") auto
  qed
  then have two: "parse_date (PyStr (strftime d ''%d/%m/%y'')) = Some d \<longleftrightarrow>
      1969 \<le> year d \<and> year d \<le> 2068"
    unfolding parse_date_two_digit_year [OF assms] Y_def two_digit_year_window .
  show ?thesis using four two by blast
qed

theorem parse_date_roundtrip_witness:
  "valid_date \<lparr>year = 2024, month = 2, day = 29\<rparr> \<and>
   parse_date (PyStr (strftime \<lparr>year = 2024, month = 2, day = 29\<rparr> ''%Y%m%d'')) =
     Some \<lparr>year = 2024, month = 2, day = 29\<rparr> \<and>
   parse_date (PyStr (strftime \<lparr>year = 2024, month = 2, day = 29\<rparr> ''%d/%m/%y'')) =
     Some \<lparr>year = 2024, month = 2, day = 29\<rparr>"
proof -
  have v: "valid_date \<lparr>year = 2024, month = 2, day = 29\<rparr>"
    by (simp add: valid_date_def days_in_month_def is_leap_def)
  show ?thesis
    using parse_date_roundtrip [OF v] v by simp
qed

subsection \<open>The validators and the two ETL classes\<close>

text \<open>
  Claim C9 (the code departs from it). \<^verbatim>\<open>validate_date_range\<close> returns a boolean when the
  end is absent and when both dates are present, but with an absent start and a present
  end it raises TypeError.
\<close>

theorem validate_date_range_absent_start:
  "validate_date_range None (Some e) = Inl TypeError \<and>
   validate_date_range s None = Inr True \<and>
   validate_date_range (Some a) (Some e) = Inr (date_le a e)"
  by (simp add: validate_date_range_def)

lemma validate_date_range_total:
  "start \<noteq> None \<or> end = None \<Longrightarrow> \<exists>ok. validate_date_range start end = Inr ok"
  by (auto simp: validate_date_range_def split: option.splits)

lemma funcionario_validation_result:
  "list_all (\<lambda>r. DATA_ADMISSAO r \<noteq> None \<or> DATA_DEMISSAO r = None) rows \<Longrightarrow>
   funcionario_validation idx rows errors =
     Inr (errors @ concat (map (\<lambda>(i, r). funcionario_row_errors i r)
                               (zip [idx ..< idx + length rows] rows)))"
proof (induction rows arbitrary: idx errors)
  case Nil
  show ?case by simp
next
  case (Cons row rows)
  from Cons.prems obtain ok
    where ok: "validate_date_range (DATA_ADMISSAO row) (DATA_DEMISSAO row) = Inr ok"
    using validate_date_range_total [of "DATA_ADMISSAO row" "DATA_DEMISSAO row"] by auto
  have rest: "list_all (\<lambda>r. DATA_ADMISSAO r \<noteq> None \<or> DATA_DEMISSAO r = None) rows"
    using Cons.prems by simp
  have u: "[idx ..< idx + length (row # rows)] = idx # [Suc idx ..< Suc idx + length rows]"
    using upt_conv_Cons [of idx "idx + length (row # rows)"] by simp
  show ?case
    unfolding u
    by (simp add: ok Cons.IH [OF rest] funcionario_row_errors_def Let_def)
qed

lemma absenteismo_validation_result:
  "list_all (\<lambda>r. absenteismo_cols.data_inicio_atestado r \<noteq> None \<or> absenteismo_cols.data_fim_atestado r = None) rows \<Longrightarrow>
   absenteismo_validation idx rows errors =
     Inr (errors @ concat (map (\<lambda>(i, r). absenteismo_row_errors i r)
                               (zip [idx ..< idx + length rows] rows)))"
proof (induction rows arbitrary: idx errors)
  case Nil
  show ?case by simp
next
  case (Cons row rows)
  from Cons.prems obtain ok
    where ok: "validate_date_range (absenteismo_cols.data_inicio_atestado row) (absenteismo_cols.data_fim_atestado row) = Inr ok"
    using validate_date_range_total [of "absenteismo_cols.data_inicio_atestado row" "absenteismo_cols.data_fim_atestado row"] by auto
  have rest: "list_all (\<lambda>r. absenteismo_cols.data_inicio_atestado r \<noteq> None \<or> absenteismo_cols.data_fim_atestado r = None) rows"
    using Cons.prems by simp
  have u: "[idx ..< idx + length (row # rows)] = idx # [Suc idx ..< Suc idx + length rows]"
    using upt_conv_Cons [of idx "idx + length (row # rows)"] by simp
  show ?case
    unfolding u
    by (simp add: ok Cons.IH [OF rest] absenteismo_row_errors_def Let_def)
qed

lemma errors_of_row:
  assumes own: "\<And>i r j k. (j, k) \<in> set (f i r) \<Longrightarrow> j = i"
    and i: "i < length rows"
  shows "(i, k) \<in> set (concat (map (\<lambda>(i, r). f i r) (zip [0 ..< 0 + length rows] rows)))
     \<longleftrightarrow> (i, k) \<in> set (f i (rows ! i))"
proof
  assume "(i, k) \<in> set (concat (map (\<lambda>(i, r). f i r) (zip [0 ..< 0 + length rows] rows)))"
  then obtain j r where jr: "(j, r) \<in> set (zip [0 ..< length rows] rows)" and m: "(i, k) \<in> set (f j r)"
    by auto
  from jr obtain n where n: "n < length rows" "[0 ..< length rows] ! n = j" "rows ! n = r"
    by (auto simp: in_set_zip)
  have "i = j" using own [OF m] .
  then show "(i, k) \<in> set (f i (rows ! i))" using m n by simp
next
  assume m: "(i, k) \<in> set (f i (rows ! i))"
  have "(i, rows ! i) \<in> set (zip [0 ..< length rows] rows)"
    using i by (auto simp: in_set_zip intro!: exI [of _ i])
  then show "(i, k) \<in> set (concat (map (\<lambda>(i, r). f i r) (zip [0 ..< 0 + length rows] rows)))"
    using m by force
qed

lemma funcionario_row_errors_own: "(j, k) \<in> set (funcionario_row_errors i r) \<Longrightarrow> j = i"
  by (auto simp: funcionario_row_errors_def split: if_splits)

lemma absenteismo_row_errors_own: "(j, k) \<in> set (absenteismo_row_errors i r) \<Longrightarrow> j = i"
  by (auto simp: absenteismo_row_errors_def split: if_splits)

lemma funcionario_process_result:
  assumes "list_all (\<lambda>r. parse_date (DATA_ADMISSAO r) \<noteq> None \<or> parse_date (DATA_DEMISSAO r) = None) raw"
    and b: "list_ex (\<lambda>r. parse_date (DATA_NASCIMENTO r) \<noteq> None) raw"
  shows "FuncionarioETL_process_raw_data today raw =
     Inr (map (funcionario_derived_metrics today) (map funcionario_transform raw),
          concat (map (\<lambda>(i, r). funcionario_row_errors i r)
                      (zip [0 ..< 0 + length (map funcionario_transform raw)]
                           (map funcionario_transform raw))))"
proof -
  have "list_all (\<lambda>r. DATA_ADMISSAO r \<noteq> None \<or> DATA_DEMISSAO r = None)
          (map funcionario_transform raw)"
    using assms(1) by (simp add: list_all_iff funcionario_transform_def)
  note v = funcionario_validation_result [OF this, of 0 "[]"]
  from b have ne: "map funcionario_transform raw \<noteq> []"
    by auto
  from b have nb: "\<not> list_all (\<lambda>r. DATA_NASCIMENTO r = None) (map funcionario_transform raw)"
    by (auto simp: list_all_iff list_ex_iff funcionario_transform_def)
  show ?thesis
    using v ne nb
    by (simp add: FuncionarioETL_process_raw_data_def
        FuncionarioETL_calculate_derived_metrics_def Let_def)
qed

lemma absenteismo_process_result:
  assumes "list_all (\<lambda>r. parse_date (absenteismo_cols.data_inicio_atestado r) \<noteq> None \<or>
                          parse_date (absenteismo_cols.data_fim_atestado r) = None) raw"
    and b: "list_ex has_required (map absenteismo_transform raw)"
  shows "AbsenteismoETL_process_raw_data today raw =
     Inr (map (absenteismo_derived_metrics today)
              (filter has_required (map absenteismo_transform raw)),
          concat (map (\<lambda>(i, r). absenteismo_row_errors i r)
                      (zip [0 ..< 0 + length (map absenteismo_transform raw)]
                           (map absenteismo_transform raw))))"
proof -
  have "list_all (\<lambda>r. absenteismo_cols.data_inicio_atestado r \<noteq> None \<or>
                       absenteismo_cols.data_fim_atestado r = None)
          (map absenteismo_transform raw)"
    using assms(1) by (simp add: list_all_iff absenteismo_transform_def)
  note v = absenteismo_validation_result [OF this, of 0 "[]"]
  from b have ne: "filter has_required (map absenteismo_transform raw) \<noteq> []"
    by (auto simp: list_ex_iff filter_empty_conv)
  show ?thesis
    using v ne
    by (simp add: AbsenteismoETL_process_raw_data_def
        AbsenteismoETL_calculate_derived_metrics_def Let_def)
qed

text \<open>
  The frames on which the derived metrics raise: a frame without rows, an employee frame
  without any birth date, an absence frame in which every row lacks a required value.
\<close>

lemma process_raw_data_raises:
  "FuncionarioETL_process_raw_data today [] = Inl ValueError"
  "AbsenteismoETL_process_raw_data today [] = Inl ValueError"
  "FuncionarioETL_process_raw_data today
     [\<lparr>CPF = None, TELEFONECELULAR = None, TELEFONERESIDENCIAL = None, EMAIL = None,
       DATA_NASCIMENTO = PyNone, DATA_ADMISSAO = PyNone, DATA_DEMISSAO = PyNone,
       DATAULTALTERACAO = PyNone, SEXO = None, ESTADOCIVIL = None\<rparr>] = Inl TypeError"
  "AbsenteismoETL_process_raw_data today
     [\<lparr>absenteismo_cols.matricula_funcionario = None,
       absenteismo_cols.data_nascimento = PyNone,
       absenteismo_cols.sexo = None, absenteismo_cols.tipo_atestado = Some 2,
       absenteismo_cols.data_inicio_atestado = PyDate \<lparr>year = 2024, month = 3, day = 4\<rparr>,
       absenteismo_cols.data_fim_atestado = PyNone,
       absenteismo_cols.dias_afastados = None\<rparr>] = Inl ValueError"
  by (simp_all add: FuncionarioETL_process_raw_data_def AbsenteismoETL_process_raw_data_def
      FuncionarioETL_calculate_derived_metrics_def AbsenteismoETL_calculate_derived_metrics_def
      funcionario_transform_def absenteismo_transform_def has_required_def
      clean_digits_def parse_date_def truthy_def validate_date_range_def na_cmp_def Let_def)

text \<open>
  Claim C5, as stated, fails: a row with the invalid CPF 12345678901 (of an employee born on
  1990-05-17, processed on 2024-03-02) has its error recorded and is still in the returned
  frame.
\<close>

theorem process_raw_data_keeps_invalid_counterexample:
  "FuncionarioETL_process_raw_data \<lparr>year = 2024, month = 3, day = 2\<rparr>
     [\<lparr>CPF = Some ''123.456.789-01'', TELEFONECELULAR = None, TELEFONERESIDENCIAL = None,
       EMAIL = None, DATA_NASCIMENTO = PyDate \<lparr>year = 1990, month = 5, day = 17\<rparr>,
       DATA_ADMISSAO = PyNone, DATA_DEMISSAO = PyNone,
       DATAULTALTERACAO = PyNone, SEXO = None, ESTADOCIVIL = None\<rparr>] =
   Inr ([\<lparr>CPF = Some ''12345678901'', TELEFONECELULAR = None, TELEFONERESIDENCIAL = None,
          EMAIL = None, DATA_NASCIMENTO = Some \<lparr>year = 1990, month = 5, day = 17\<rparr>,
          DATA_ADMISSAO = None, DATA_DEMISSAO = None,
          DATAULTALTERACAO = None, SEXO = None, ESTADOCIVIL = None,
          idade_atual = Some 33, funcionario_clean.sexo_desc = None, estado_civil_desc = None,
          faixa_etaria = Some ''25-34'', status_ativo = True\<rparr>],
        [(0, CPF_invalido)])"
  by (simp add: FuncionarioETL_process_raw_data_def FuncionarioETL_calculate_derived_metrics_def
      funcionario_transform_def
      funcionario_derived_metrics_def clean_digits_def parse_date_def truthy_def
      validate_date_range_def calculate_age_def map_codes_def cut_def cpf_eval)

text \<open>
  Claim C5, amended. Take an employee frame in which some row has a birth date and an
  absence frame in which some row has its start date, sex and certificate type, and in
  neither a row with an absent start date together with a present end date.
  Then both classes return, and for every row: each failed rule
  (invalid CPF, invalid e-mail, dismissal before admission; end of the certificate before
  its start, negative day count) is recorded in the error list under the index of the row,
  and nothing else is recorded under it; the row is not excluded on that account.
  FuncionarioETL returns every row, in order; AbsenteismoETL returns exactly the rows whose
  start date, sex and certificate type are present, failed or not.
\<close>

theorem process_raw_data_records_errors:
  assumes f: "list_all (\<lambda>r. parse_date (DATA_ADMISSAO r) \<noteq> None \<or>
                              parse_date (DATA_DEMISSAO r) = None) raw_f"
    and a: "list_all (\<lambda>r. parse_date (absenteismo_cols.data_inicio_atestado r) \<noteq> None \<or>
                            parse_date (absenteismo_cols.data_fim_atestado r) = None) raw_a"
    and bf: "list_ex (\<lambda>r. parse_date (DATA_NASCIMENTO r) \<noteq> None) raw_f"
    and ba: "list_ex has_required (map absenteismo_transform raw_a)"
  shows "\<exists>clean_f errors_f clean_a errors_a.
     FuncionarioETL_process_raw_data today raw_f = Inr (clean_f, errors_f) \<and>
     AbsenteismoETL_process_raw_data today raw_a = Inr (clean_a, errors_a) \<and>
     length clean_f = length raw_f \<and>
     (\<forall>i < length raw_f.
        CPF (clean_f ! i) = clean_digits (CPF (raw_f ! i)) \<and>
        EMAIL (clean_f ! i) = EMAIL (raw_f ! i) \<and>
        DATA_ADMISSAO (clean_f ! i) = parse_date (DATA_ADMISSAO (raw_f ! i)) \<and>
        DATA_DEMISSAO (clean_f ! i) = parse_date (DATA_DEMISSAO (raw_f ! i)) \<and>
        ((i, CPF_invalido) \<in> set errors_f \<longleftrightarrow>
           truthy (CPF (clean_f ! i)) \<and> \<not> validate_cpf (CPF (clean_f ! i))) \<and>
        ((i, Email_invalido) \<in> set errors_f \<longleftrightarrow>
           truthy (EMAIL (clean_f ! i)) \<and> \<not> validate_email (EMAIL (clean_f ! i))) \<and>
        ((i, Data_demissao_anterior) \<in> set errors_f \<longleftrightarrow>
           validate_date_range (DATA_ADMISSAO (clean_f ! i)) (DATA_DEMISSAO (clean_f ! i))
             = Inr False)) \<and>
     map absenteismo_cols.data_inicio_atestado clean_a =
       map absenteismo_cols.data_inicio_atestado
         (filter has_required (map absenteismo_transform raw_a)) \<and>
     map absenteismo_cols.matricula_funcionario clean_a =
       map absenteismo_cols.matricula_funcionario
         (filter has_required (map absenteismo_transform raw_a)) \<and>
     (\<forall>i < length raw_a.
        ((i, Data_fim_anterior) \<in> set errors_a \<longleftrightarrow>
           validate_date_range
             (parse_date (absenteismo_cols.data_inicio_atestado (raw_a ! i)))
             (parse_date (absenteismo_cols.data_fim_atestado (raw_a ! i))) = Inr False) \<and>
        ((i, Dias_afastados_negativo) \<in> set errors_a \<longleftrightarrow>
           (\<exists>n. absenteismo_cols.dias_afastados (raw_a ! i) = Some n \<and> n < 0)))"
proof -
  let ?pf = "map funcionario_transform raw_f"
  let ?pa = "map absenteismo_transform raw_a"
  let ?ef = "concat (map (\<lambda>(i, r). funcionario_row_errors i r) (zip [0 ..< 0 + length ?pf] ?pf))"
  let ?ea = "concat (map (\<lambda>(i, r). absenteismo_row_errors i r) (zip [0 ..< 0 + length ?pa] ?pa))"
  let ?cf = "map (funcionario_derived_metrics today) ?pf"
  let ?ca = "map (absenteismo_derived_metrics today) (filter has_required ?pa)"
  have rf: "FuncionarioETL_process_raw_data today raw_f = Inr (?cf, ?ef)"
    using funcionario_process_result [OF f bf] .
  have ra: "AbsenteismoETL_process_raw_data today raw_a = Inr (?ca, ?ea)"
    using absenteismo_process_result [OF a ba] .
  have lf: "length ?cf = length raw_f" by simp
  have rows_f: "\<forall>i < length raw_f.
        CPF (?cf ! i) = clean_digits (CPF (raw_f ! i)) \<and>
        EMAIL (?cf ! i) = EMAIL (raw_f ! i) \<and>
        DATA_ADMISSAO (?cf ! i) = parse_date (DATA_ADMISSAO (raw_f ! i)) \<and>
        DATA_DEMISSAO (?cf ! i) = parse_date (DATA_DEMISSAO (raw_f ! i)) \<and>
        ((i, CPF_invalido) \<in> set ?ef \<longleftrightarrow>
           truthy (CPF (?cf ! i)) \<and> \<not> validate_cpf (CPF (?cf ! i))) \<and>
        ((i, Email_invalido) \<in> set ?ef \<longleftrightarrow>
           truthy (EMAIL (?cf ! i)) \<and> \<not> validate_email (EMAIL (?cf ! i))) \<and>
        ((i, Data_demissao_anterior) \<in> set ?ef \<longleftrightarrow>
           validate_date_range (DATA_ADMISSAO (?cf ! i)) (DATA_DEMISSAO (?cf ! i)) = Inr False)"
  proof (intro allI impI)
    fix i assume i: "i < length raw_f"
    then have i': "i < length ?pf" by simp
    have c: "?cf ! i = funcionario_derived_metrics today (funcionario_transform (raw_f ! i))"
      using i by simp
    have p: "?pf ! i = funcionario_transform (raw_f ! i)"
      using i by simp
    have e: "\<And>k. (i, k) \<in> set ?ef \<longleftrightarrow> (i, k) \<in> set (funcionario_row_errors i (?pf ! i))"
      using errors_of_row [where f = funcionario_row_errors and rows = ?pf and i = i,
          OF funcionario_row_errors_own i'] .
    show "CPF (?cf ! i) = clean_digits (CPF (raw_f ! i)) \<and>
        EMAIL (?cf ! i) = EMAIL (raw_f ! i) \<and>
        DATA_ADMISSAO (?cf ! i) = parse_date (DATA_ADMISSAO (raw_f ! i)) \<and>
        DATA_DEMISSAO (?cf ! i) = parse_date (DATA_DEMISSAO (raw_f ! i)) \<and>
        ((i, CPF_invalido) \<in> set ?ef \<longleftrightarrow>
           truthy (CPF (?cf ! i)) \<and> \<not> validate_cpf (CPF (?cf ! i))) \<and>
        ((i, Email_invalido) \<in> set ?ef \<longleftrightarrow>
           truthy (EMAIL (?cf ! i)) \<and> \<not> validate_email (EMAIL (?cf ! i))) \<and>
        ((i, Data_demissao_anterior) \<in> set ?ef \<longleftrightarrow>
           validate_date_range (DATA_ADMISSAO (?cf ! i)) (DATA_DEMISSAO (?cf ! i)) = Inr False)"
      unfolding e c p
      by (simp add: funcionario_row_errors_def funcionario_derived_metrics_def
          funcionario_transform_def Let_def)
  qed
  have keep1: "map absenteismo_cols.data_inicio_atestado ?ca =
       map absenteismo_cols.data_inicio_atestado (filter has_required ?pa)"
    by (simp add: absenteismo_derived_metrics_def Let_def o_def)
  have keep2: "map absenteismo_cols.matricula_funcionario ?ca =
       map absenteismo_cols.matricula_funcionario (filter has_required ?pa)"
    by (simp add: absenteismo_derived_metrics_def Let_def o_def)
  have rows_a: "\<forall>i < length raw_a.
        ((i, Data_fim_anterior) \<in> set ?ea \<longleftrightarrow>
           validate_date_range
             (parse_date (absenteismo_cols.data_inicio_atestado (raw_a ! i)))
             (parse_date (absenteismo_cols.data_fim_atestado (raw_a ! i))) = Inr False) \<and>
        ((i, Dias_afastados_negativo) \<in> set ?ea \<longleftrightarrow>
           (\<exists>n. absenteismo_cols.dias_afastados (raw_a ! i) = Some n \<and> n < 0))"
  proof (intro allI impI)
    fix i assume i: "i < length raw_a"
    then have i': "i < length ?pa" by simp
    have p: "?pa ! i = absenteismo_transform (raw_a ! i)"
      using i by simp
    have e: "\<And>k. (i, k) \<in> set ?ea \<longleftrightarrow> (i, k) \<in> set (absenteismo_row_errors i (?pa ! i))"
      using errors_of_row [where f = absenteismo_row_errors and rows = ?pa and i = i,
          OF absenteismo_row_errors_own i'] .
    show "((i, Data_fim_anterior) \<in> set ?ea \<longleftrightarrow>
           validate_date_range
             (parse_date (absenteismo_cols.data_inicio_atestado (raw_a ! i)))
             (parse_date (absenteismo_cols.data_fim_atestado (raw_a ! i))) = Inr False) \<and>
        ((i, Dias_afastados_negativo) \<in> set ?ea \<longleftrightarrow>
           (\<exists>n. absenteismo_cols.dias_afastados (raw_a ! i) = Some n \<and> n < 0))"
      unfolding e p
      by (auto simp: absenteismo_row_errors_def absenteismo_transform_def na_cmp_def
          split: option.splits)
  qed
  show ?thesis
    using rf ra lf rows_f keep1 keep2 rows_a by blast
qed

theorem process_raw_data_records_errors_witness:
  "list_all (\<lambda>r. parse_date (DATA_ADMISSAO r) \<noteq> None \<or> parse_date (DATA_DEMISSAO r) = None)
     [\<lparr>CPF = Some ''123.456.789-01'', TELEFONECELULAR = None, TELEFONERESIDENCIAL = None,
       EMAIL = None, DATA_NASCIMENTO = PyDate \<lparr>year = 1990, month = 5, day = 17\<rparr>,
       DATA_ADMISSAO = PyNone, DATA_DEMISSAO = PyNone,
       DATAULTALTERACAO = PyNone, SEXO = None, ESTADOCIVIL = None\<rparr>] \<and>
   list_all (\<lambda>r. parse_date (absenteismo_cols.data_inicio_atestado r) \<noteq> None \<or>
                  parse_date (absenteismo_cols.data_fim_atestado r) = None)
     [\<lparr>absenteismo_cols.matricula_funcionario = Some ''M7'',
       absenteismo_cols.data_nascimento = PyNone,
       absenteismo_cols.sexo = Some 2, absenteismo_cols.tipo_atestado = Some 2,
       absenteismo_cols.data_inicio_atestado = PyDate \<lparr>year = 2024, month = 3, day = 4\<rparr>,
       absenteismo_cols.data_fim_atestado = PyNone,
       absenteismo_cols.dias_afastados = Some (- 3)\<rparr>] \<and>
   list_ex (\<lambda>r. parse_date (DATA_NASCIMENTO r) \<noteq> None)
     [\<lparr>CPF = Some ''123.456.789-01'', TELEFONECELULAR = None, TELEFONERESIDENCIAL = None,
       EMAIL = None, DATA_NASCIMENTO = PyDate \<lparr>year = 1990, month = 5, day = 17\<rparr>,
       DATA_ADMISSAO = PyNone, DATA_DEMISSAO = PyNone,
       DATAULTALTERACAO = PyNone, SEXO = None, ESTADOCIVIL = None\<rparr>] \<and>
   list_ex has_required (map absenteismo_transform
     [\<lparr>absenteismo_cols.matricula_funcionario = Some ''M7'',
       absenteismo_cols.data_nascimento = PyNone,
       absenteismo_cols.sexo = Some 2, absenteismo_cols.tipo_atestado = Some 2,
       absenteismo_cols.data_inicio_atestado = PyDate \<lparr>year = 2024, month = 3, day = 4\<rparr>,
       absenteismo_cols.data_fim_atestado = PyNone,
       absenteismo_cols.dias_afastados = Some (- 3)\<rparr>]) \<and>
   (\<exists>clean errors.
      FuncionarioETL_process_raw_data \<lparr>year = 2024, month = 3, day = 2\<rparr>
        [\<lparr>CPF = Some ''123.456.789-01'', TELEFONECELULAR = None, TELEFONERESIDENCIAL = None,
          EMAIL = None, DATA_NASCIMENTO = PyDate \<lparr>year = 1990, month = 5, day = 17\<rparr>,
       DATA_ADMISSAO = PyNone, DATA_DEMISSAO = PyNone,
          DATAULTALTERACAO = PyNone, SEXO = None, ESTADOCIVIL = None\<rparr>] = Inr (clean, errors) \<and>
      length clean = 1 \<and> (0, CPF_invalido) \<in> set errors) \<and>
   (\<exists>clean errors.
      AbsenteismoETL_process_raw_data \<lparr>year = 2024, month = 3, day = 2\<rparr>
        [\<lparr>absenteismo_cols.matricula_funcionario = Some ''M7'',
          absenteismo_cols.data_nascimento = PyNone,
          absenteismo_cols.sexo = Some 2, absenteismo_cols.tipo_atestado = Some 2,
          absenteismo_cols.data_inicio_atestado = PyDate \<lparr>year = 2024, month = 3, day = 4\<rparr>,
          absenteismo_cols.data_fim_atestado = PyNone,
          absenteismo_cols.dias_afastados = Some (- 3)\<rparr>] = Inr (clean, errors) \<and>
      map absenteismo_cols.matricula_funcionario clean = [Some ''M7''] \<and>
      (0, Dias_afastados_negativo) \<in> set errors)"
proof -
  let ?today = "\<lparr>year = 2024, month = 3, day = 2\<rparr>"
  let ?rf = "[\<lparr>CPF = Some ''123.456.789-01'', TELEFONECELULAR = None, TELEFONERESIDENCIAL = None,
       EMAIL = None, DATA_NASCIMENTO = PyDate \<lparr>year = 1990, month = 5, day = 17\<rparr>,
       DATA_ADMISSAO = PyNone, DATA_DEMISSAO = PyNone,
       DATAULTALTERACAO = PyNone, SEXO = None, ESTADOCIVIL = None\<rparr>]"
  let ?ra = "[\<lparr>absenteismo_cols.matricula_funcionario = Some ''M7'',
       absenteismo_cols.data_nascimento = PyNone,
       absenteismo_cols.sexo = Some (2::int), absenteismo_cols.tipo_atestado = Some (2::int),
       absenteismo_cols.data_inicio_atestado = PyDate \<lparr>year = 2024, month = 3, day = 4\<rparr>,
       absenteismo_cols.data_fim_atestado = PyNone,
       absenteismo_cols.dias_afastados = Some (- 3 :: int)\<rparr>]"
  have f: "list_all (\<lambda>r. parse_date (DATA_ADMISSAO r) \<noteq> None \<or> parse_date (DATA_DEMISSAO r) = None) ?rf"
    by (simp add: parse_date_def)
  have a: "list_all (\<lambda>r. parse_date (absenteismo_cols.data_inicio_atestado r) \<noteq> None \<or>
                  parse_date (absenteismo_cols.data_fim_atestado r) = None) ?ra"
    by (simp add: parse_date_def)
  have bf: "list_ex (\<lambda>r. parse_date (DATA_NASCIMENTO r) \<noteq> None) ?rf"
    by (simp add: parse_date_def)
  have ba: "list_ex has_required (map absenteismo_transform ?ra)"
    by (simp add: has_required_def absenteismo_transform_def parse_date_def)
  have cpf: "truthy (clean_digits (Some ''123.456.789-01'')) \<and>
             \<not> validate_cpf (clean_digits (Some ''123.456.789-01''))"
    by (simp add: truthy_def clean_digits_def cpf_eval)
  have req: "filter has_required (map absenteismo_transform ?ra) = map absenteismo_transform ?ra"
    by (simp add: has_required_def absenteismo_transform_def parse_date_def)
  from process_raw_data_records_errors [OF f a bf ba, of ?today]
  obtain clean_f errors_f clean_a errors_a where
    rf: "FuncionarioETL_process_raw_data ?today ?rf = Inr (clean_f, errors_f)" and
    ra: "AbsenteismoETL_process_raw_data ?today ?ra = Inr (clean_a, errors_a)" and
    lf: "length clean_f = length ?rf" and
    pf: "\<forall>i < length ?rf.
        CPF (clean_f ! i) = clean_digits (CPF (?rf ! i)) \<and>
        EMAIL (clean_f ! i) = EMAIL (?rf ! i) \<and>
        DATA_ADMISSAO (clean_f ! i) = parse_date (DATA_ADMISSAO (?rf ! i)) \<and>
        DATA_DEMISSAO (clean_f ! i) = parse_date (DATA_DEMISSAO (?rf ! i)) \<and>
        ((i, CPF_invalido) \<in> set errors_f \<longleftrightarrow>
           truthy (CPF (clean_f ! i)) \<and> \<not> validate_cpf (CPF (clean_f ! i))) \<and>
        ((i, Email_invalido) \<in> set errors_f \<longleftrightarrow>
           truthy (EMAIL (clean_f ! i)) \<and> \<not> validate_email (EMAIL (clean_f ! i))) \<and>
        ((i, Data_demissao_anterior) \<in> set errors_f \<longleftrightarrow>
           validate_date_range (DATA_ADMISSAO (clean_f ! i)) (DATA_DEMISSAO (clean_f ! i))
             = Inr False)" and
    ka: "map absenteismo_cols.matricula_funcionario clean_a =
       map absenteismo_cols.matricula_funcionario
         (filter has_required (map absenteismo_transform ?ra))" and
    pa: "\<forall>i < length ?ra.
        ((i, Data_fim_anterior) \<in> set errors_a \<longleftrightarrow>
           validate_date_range
             (parse_date (absenteismo_cols.data_inicio_atestado (?ra ! i)))
             (parse_date (absenteismo_cols.data_fim_atestado (?ra ! i))) = Inr False) \<and>
        ((i, Dias_afastados_negativo) \<in> set errors_a \<longleftrightarrow>
           (\<exists>n. absenteismo_cols.dias_afastados (?ra ! i) = Some n \<and> n < 0))"
    by blast
  have e1: "(0, CPF_invalido) \<in> set errors_f"
    using pf cpf by simp
  have e2: "(0, Dias_afastados_negativo) \<in> set errors_a"
    using pa by simp
  have k: "map absenteismo_cols.matricula_funcionario clean_a = [Some ''M7'']"
    unfolding ka req by (simp add: absenteismo_transform_def)
  show ?thesis
    using f a bf ba rf ra lf e1 e2 k by simp
qed

subsection \<open>Versions of an employee\<close>

lemma upt_1_2: "[Suc 0 ..< 2] = [Suc 0]"
  by (simp add: upt_rec)

lemma upt_2_3: "[2 ..< 3] = [2::nat]"
  by (simp add: upt_rec)

lemmas db_eval = load_funcionarios_def funcionario_of_def funcionario_insertable_def
  has_keys_def dict_get_def db_parse_date_def insert_rows_def next_key_def

text \<open>
  Claim C1 (the code departs from it). An employee of company 3 with code 7 is loaded in
  sector TI, and loaded again after moving to sector RH. Both loads succeed, and the table
  then holds two versions of the natural key (3, 7), both with \<^verbatim>\<open>registro_ativo\<close> true and
  both with no end of validity: the first version was not closed.
\<close>

theorem load_funcionarios_two_active_versions:
  "let db0 = \<lparr>dim_empresa = [PyInt 3], dim_funcionario = [], dim_tempo = [],
              fato_absenteismo = []\<rparr>;
       r1 = load_funcionarios db0 10
              [map_of [(''CODIGO'', PyInt 7), (''CODIGOEMPRESA'', PyInt 3),
                       (''NOME'', PyStr ''Ana''), (''CPF'', PyStr ''11144477735''),
                       (''SEXO'', PyInt 2), (''MATRICULAFUNCIONARIO'', PyStr ''M7''),
                       (''SITUACAO'', PyStr ''Ativo''),
                       (''DATA_NASCIMENTO'', PyDate \<lparr>year = 1990, month = 5, day = 17\<rparr>),
                       (''DATA_ADMISSAO'', PyDate \<lparr>year = 2020, month = 3, day = 2\<rparr>),
                       (''NOMESETOR'', PyStr ''TI'')]];
       r2 = load_funcionarios (snd r1) 20
              [map_of [(''CODIGO'', PyInt 7), (''CODIGOEMPRESA'', PyInt 3),
                       (''NOME'', PyStr ''Ana''), (''CPF'', PyStr ''11144477735''),
                       (''SEXO'', PyInt 2), (''MATRICULAFUNCIONARIO'', PyStr ''M7''),
                       (''SITUACAO'', PyStr ''Ativo''),
                       (''DATA_NASCIMENTO'', PyDate \<lparr>year = 1990, month = 5, day = 17\<rparr>),
                       (''DATA_ADMISSAO'', PyDate \<lparr>year = 2020, month = 3, day = 2\<rparr>),
                       (''NOMESETOR'', PyStr ''RH'')]]
   in fst r1 = None \<and> fst r2 = None \<and>
      map (\<lambda>row. (fst row, DimFuncionario.nome_setor (snd row),
                   DimFuncionario.data_inicio_validade (snd row),
                   DimFuncionario.data_fim_validade (snd row),
                   DimFuncionario.registro_ativo (snd row)))
          (active_versions (snd r2) (PyInt 3) (PyInt 7)) =
        [(1, PyStr ''TI'', 10, None, True), (2, PyStr ''RH'', 20, None, True)]"
  by (simp add: db_eval active_versions_def Let_def upt_1_2 upt_2_3)

subsection \<open>The employee dimension and the absence facts\<close>

lemma find_funcionario_Some:
  "find_funcionario db r = Some (sk, emp) \<Longrightarrow>
   (sk, emp) \<in> set (dim_funcionario db) \<and> DimFuncionario.registro_ativo emp \<and>
   matches_funcionario r emp"
proof -
  assume "find_funcionario db r = Some (sk, emp)"
  then obtain i where i: "i < length (dim_funcionario db)"
      "matches_funcionario r (snd (dim_funcionario db ! i))" "(sk, emp) = dim_funcionario db ! i"
    by (auto simp: find_funcionario_def find_Some_iff)
  from i(2,3) have m: "matches_funcionario r emp" by (metis snd_conv)
  have "(sk, emp) \<in> set (dim_funcionario db)" using i(1,3) by simp
  then show ?thesis using m by (simp add: matches_funcionario_def)
qed

lemma absenteismo_of_Skipped:
  "absenteismo_of db r = Skipped \<Longrightarrow> find_funcionario db r = None"
  by (auto simp: absenteismo_of_def Let_def split: if_splits option.splits)

lemma absenteismo_of_Built:
  "absenteismo_of db r = Built a \<Longrightarrow>
   find_funcionario db r \<noteq> None \<and>
   Some (FatoAbsenteismo.sk_funcionario a) = map_option fst (find_funcionario db r)"
  by (auto simp: absenteismo_of_def Let_def split: if_splits option.splits)

lemma absenteismo_of_no_keys:
  "\<not> has_keys r [''UNIDADE'', ''SETOR'', ''DT_NASCIMENTO'', ''SEXO''] \<Longrightarrow>
   absenteismo_of db r = Raised KeyError"
  by (simp add: absenteismo_of_def)

lemma absenteismo_loop_success:
  "absenteismo_loop db rows recs log = (Inr out, log') \<Longrightarrow>
   log' = log @ filter (\<lambda>r. find_funcionario db r = None) rows \<and>
   map (\<lambda>a. Some (FatoAbsenteismo.sk_funcionario a)) out =
     map (\<lambda>a. Some (FatoAbsenteismo.sk_funcionario a)) recs @
     map (\<lambda>r. map_option fst (find_funcionario db r))
         (filter (\<lambda>r. find_funcionario db r \<noteq> None) rows)"
proof (induction rows arbitrary: recs log)
  case Nil
  then show ?case by simp
next
  case (Cons r rows)
  show ?case
  proof (cases "absenteismo_of db r")
    case (Raised e)
    with Cons.prems show ?thesis by simp
  next
    case Skipped
    with Cons.prems have "absenteismo_loop db rows recs (log @ [r]) = (Inr out, log')"
      by simp
    from Cons.IH [OF this] absenteismo_of_Skipped [OF Skipped] show ?thesis by simp
  next
    case (Built a)
    with Cons.prems have "absenteismo_loop db rows (recs @ [a]) log = (Inr out, log')"
      by simp
    from Cons.IH [OF this] absenteismo_of_Built [OF Built] show ?thesis by simp
  qed
qed

lemma absenteismo_loop_raises:
  "list_ex (\<lambda>r. \<not> has_keys r [''UNIDADE'', ''SETOR'', ''DT_NASCIMENTO'', ''SEXO'']) rows \<Longrightarrow>
   \<exists>e log'. absenteismo_loop db rows recs log = (Inl e, log')"
proof (induction rows arbitrary: recs log)
  case Nil
  then show ?case by simp
next
  case (Cons r rows)
  show ?case
  proof (cases "has_keys r [''UNIDADE'', ''SETOR'', ''DT_NASCIMENTO'', ''SEXO'']")
    case False
    then show ?thesis using absenteismo_of_no_keys [OF False, of db] by simp
  next
    case True
    with Cons.prems have
      "list_ex (\<lambda>r. \<not> has_keys r [''UNIDADE'', ''SETOR'', ''DT_NASCIMENTO'', ''SEXO'']) rows"
      by simp
    from Cons.IH [OF this] show ?thesis
      by (cases "absenteismo_of db r") simp_all
  qed
qed

lemmas abs_eval = load_absenteismo_def absenteismo_of_def find_funcionario_def
  matches_funcionario_def find_tempo_def fato_insertable_def has_keys_def dict_get_def
  db_parse_date_def insert_rows_def next_key_def data_completa_tempo_record

text \<open>
  Claim C4 as stated fails: the loader does raise for a single bad row. With one active
  employee stored, a batch of one good row loads; the same good row followed by a row
  that has no \<^verbatim>\<open>UNIDADE\<close> raises KeyError, and the rollback leaves the database as it was:
  the fact of the good row is not stored either.
\<close>

theorem load_absenteismo_raises_counterexample:
  "let db = \<lparr>dim_empresa = [PyInt 3],
             dim_funcionario =
               [(5, \<lparr>DimFuncionario.codigo_funcionario = PyInt 7,
                     DimFuncionario.codigo_empresa = PyInt 3,
                     DimFuncionario.nome = PyStr ''Ana'',
                     DimFuncionario.cpf = PyStr ''11144477735'',
                     DimFuncionario.data_nascimento = Some \<lparr>year = 1990, month = 5, day = 17\<rparr>,
                     DimFuncionario.sexo = PyInt 2,
                     DimFuncionario.matricula_funcionario = PyStr ''M7'',
                     DimFuncionario.situacao = PyStr ''Ativo'',
                     DimFuncionario.data_admissao = Some \<lparr>year = 2020, month = 3, day = 2\<rparr>,
                     DimFuncionario.data_demissao = None,
                     DimFuncionario.nome_unidade = PyStr ''Matriz'',
                     DimFuncionario.nome_setor = PyStr ''TI'',
                     DimFuncionario.data_inicio_validade = 20,
                     DimFuncionario.data_fim_validade = None,
                     DimFuncionario.registro_ativo = True\<rparr>)],
             dim_tempo = [(9, tempo_record \<lparr>year = 2024, month = 3, day = 4\<rparr>)],
             fato_absenteismo = []\<rparr>;
       good = map_of [(''EMPRESA'', PyInt 3), (''UNIDADE'', PyStr ''Matriz''),
                      (''SETOR'', PyStr ''TI''),
                      (''DT_NASCIMENTO'', PyDate \<lparr>year = 1990, month = 5, day = 17\<rparr>),
                      (''SEXO'', PyInt 2),
                      (''DT_INICIO_ATESTADO'', PyDate \<lparr>year = 2024, month = 3, day = 4\<rparr>),
                      (''MATRICULA_FUNC'', PyStr ''M7''), (''TIPO_ATESTADO'', PyInt 2)];
       bad = map_of [(''EMPRESA'', PyInt 3), (''SETOR'', PyStr ''TI''),
                     (''DT_NASCIMENTO'', PyDate \<lparr>year = 1990, month = 5, day = 17\<rparr>),
                     (''SEXO'', PyInt 2),
                     (''DT_INICIO_ATESTADO'', PyDate \<lparr>year = 2024, month = 3, day = 4\<rparr>),
                     (''MATRICULA_FUNC'', PyStr ''M7''), (''TIPO_ATESTADO'', PyInt 2)]
   in fst (load_absenteismo db [good]) = None \<and>
      map (\<lambda>row. (FatoAbsenteismo.sk_funcionario (snd row),
                   FatoAbsenteismo.sk_tempo_inicio (snd row)))
          (fato_absenteismo (fst (snd (load_absenteismo db [good])))) = [(5, Some 9)] \<and>
      load_absenteismo db [good, bad] = (Some KeyError, db, [])"
  by (simp add: abs_eval Let_def upt_1_2)

text \<open>
  Claim C4, amended. The loader builds a fact for a row, or skips it with a logged warning
  when no active employee version matches, or raises; it does raise for a single bad row
  (a row without one of the keys of the employee query makes the whole load raise), and
  whenever it raises the transaction is rolled back: the database is as before and no fact
  of the batch is stored. When it returns, the log holds exactly the rows without a match,
  and the stored facts are, in order, one per row with a match, each carrying the surrogate
  key of the employee version the query found and a start-date key that is not null. The
  query finds only stored versions that are active and agree with the row on company,
  unit name, sector name, birth date and sex.
\<close>

theorem load_absenteismo_outcomes:
  "(fst (load_absenteismo db rows) \<noteq> None \<longrightarrow> fst (snd (load_absenteismo db rows)) = db) \<and>
   (list_ex (\<lambda>r. \<not> has_keys r [''UNIDADE'', ''SETOR'', ''DT_NASCIMENTO'', ''SEXO'']) rows \<longrightarrow>
      fst (load_absenteismo db rows) \<noteq> None) \<and>
   (fst (load_absenteismo db rows) = None \<longrightarrow>
      snd (snd (load_absenteismo db rows)) = filter (\<lambda>r. find_funcionario db r = None) rows \<and>
      (\<exists>facts.
         fst (snd (load_absenteismo db rows)) =
           db\<lparr>fato_absenteismo := insert_rows (fato_absenteismo db) facts\<rparr> \<and>
         map (\<lambda>a. Some (FatoAbsenteismo.sk_funcionario a)) facts =
           map (\<lambda>r. map_option fst (find_funcionario db r))
               (filter (\<lambda>r. find_funcionario db r \<noteq> None) rows) \<and>
         list_all (\<lambda>a. FatoAbsenteismo.sk_tempo_inicio a \<noteq> None) facts)) \<and>
   (\<forall>r sk emp. find_funcionario db r = Some (sk, emp) \<longrightarrow>
      (sk, emp) \<in> set (dim_funcionario db) \<and> DimFuncionario.registro_ativo emp \<and>
      matches_funcionario r emp)"
proof -
  obtain res log where l: "absenteismo_loop db rows [] [] = (res, log)"
    by (cases "absenteismo_loop db rows [] []") auto
  have rollback: "fst (load_absenteismo db rows) \<noteq> None \<longrightarrow> fst (snd (load_absenteismo db rows)) = db"
    by (cases res) (simp_all add: load_absenteismo_def l)
  have raises: "list_ex (\<lambda>r. \<not> has_keys r [''UNIDADE'', ''SETOR'', ''DT_NASCIMENTO'', ''SEXO'']) rows \<longrightarrow>
      fst (load_absenteismo db rows) \<noteq> None"
  proof
    assume "list_ex (\<lambda>r. \<not> has_keys r [''UNIDADE'', ''SETOR'', ''DT_NASCIMENTO'', ''SEXO'']) rows"
    from absenteismo_loop_raises [OF this, of db "[]" "[]"] l obtain e where "res = Inl e"
      by auto
    then show "fst (load_absenteismo db rows) \<noteq> None"
      by (simp add: load_absenteismo_def l)
  qed
  have success: "fst (load_absenteismo db rows) = None \<longrightarrow>
      snd (snd (load_absenteismo db rows)) = filter (\<lambda>r. find_funcionario db r = None) rows \<and>
      (\<exists>facts.
         fst (snd (load_absenteismo db rows)) =
           db\<lparr>fato_absenteismo := insert_rows (fato_absenteismo db) facts\<rparr> \<and>
         map (\<lambda>a. Some (FatoAbsenteismo.sk_funcionario a)) facts =
           map (\<lambda>r. map_option fst (find_funcionario db r))
               (filter (\<lambda>r. find_funcionario db r \<noteq> None) rows) \<and>
         list_all (\<lambda>a. FatoAbsenteismo.sk_tempo_inicio a \<noteq> None) facts)"
  proof
    assume ok: "fst (load_absenteismo db rows) = None"
    then obtain out where out: "res = Inr out" and ins: "list_all fato_insertable out"
      by (cases res) (auto simp: load_absenteismo_def l split: if_splits)
    have r: "load_absenteismo db rows =
       (None, db\<lparr>fato_absenteismo := insert_rows (fato_absenteismo db) out\<rparr>, log)"
      using out ins by (simp add: load_absenteismo_def l)
    from absenteismo_loop_success [OF l [unfolded out]]
    have lg: "log = filter (\<lambda>r. find_funcionario db r = None) rows"
      and sk: "map (\<lambda>a. Some (FatoAbsenteismo.sk_funcionario a)) out =
           map (\<lambda>r. map_option fst (find_funcionario db r))
               (filter (\<lambda>r. find_funcionario db r \<noteq> None) rows)"
      by simp_all
    have t: "list_all (\<lambda>a. FatoAbsenteismo.sk_tempo_inicio a \<noteq> None) out"
      using ins by (simp add: list_all_iff fato_insertable_def)
    show "snd (snd (load_absenteismo db rows)) = filter (\<lambda>r. find_funcionario db r = None) rows \<and>
      (\<exists>facts.
         fst (snd (load_absenteismo db rows)) =
           db\<lparr>fato_absenteismo := insert_rows (fato_absenteismo db) facts\<rparr> \<and>
         map (\<lambda>a. Some (FatoAbsenteismo.sk_funcionario a)) facts =
           map (\<lambda>r. map_option fst (find_funcionario db r))
               (filter (\<lambda>r. find_funcionario db r \<noteq> None) rows) \<and>
         list_all (\<lambda>a. FatoAbsenteismo.sk_tempo_inicio a \<noteq> None) facts)"
      unfolding r using lg sk t by auto
  qed
  show ?thesis
    using rollback raises success find_funcionario_Some by blast
qed

theorem load_absenteismo_outcomes_witness:
  "let db = \<lparr>dim_empresa = [PyInt 3],
             dim_funcionario =
               [(4, \<lparr>DimFuncionario.codigo_funcionario = PyInt 7,
                     DimFuncionario.codigo_empresa = PyInt 3,
                     DimFuncionario.nome = PyStr ''Ana'',
                     DimFuncionario.cpf = PyStr ''11144477735'',
                     DimFuncionario.data_nascimento = Some \<lparr>year = 1990, month = 5, day = 17\<rparr>,
                     DimFuncionario.sexo = PyInt 2,
                     DimFuncionario.matricula_funcionario = PyStr ''M7'',
                     DimFuncionario.situacao = PyStr ''Ativo'',
                     DimFuncionario.data_admissao = Some \<lparr>year = 2020, month = 3, day = 2\<rparr>,
                     DimFuncionario.data_demissao = None,
                     DimFuncionario.nome_unidade = PyStr ''Matriz'',
                     DimFuncionario.nome_setor = PyStr ''TI'',
                     DimFuncionario.data_inicio_validade = 10,
                     DimFuncionario.data_fim_validade = Some 20,
                     DimFuncionario.registro_ativo = False\<rparr>),
                (5, \<lparr>DimFuncionario.codigo_funcionario = PyInt 7,
                     DimFuncionario.codigo_empresa = PyInt 3,
                     DimFuncionario.nome = PyStr ''Ana'',
                     DimFuncionario.cpf = PyStr ''11144477735'',
                     DimFuncionario.data_nascimento = Some \<lparr>year = 1990, month = 5, day = 17\<rparr>,
                     DimFuncionario.sexo = PyInt 2,
                     DimFuncionario.matricula_funcionario = PyStr ''M7'',
                     DimFuncionario.situacao = PyStr ''Ativo'',
                     DimFuncionario.data_admissao = Some \<lparr>year = 2020, month = 3, day = 2\<rparr>,
                     DimFuncionario.data_demissao = None,
                     DimFuncionario.nome_unidade = PyStr ''Matriz'',
                     DimFuncionario.nome_setor = PyStr ''TI'',
                     DimFuncionario.data_inicio_validade = 20,
                     DimFuncionario.data_fim_validade = None,
                     DimFuncionario.registro_ativo = True\<rparr>)],
             dim_tempo = [(9, tempo_record \<lparr>year = 2024, month = 3, day = 4\<rparr>)],
             fato_absenteismo = []\<rparr>;
       good = map_of [(''EMPRESA'', PyInt 3), (''UNIDADE'', PyStr ''Matriz''),
                      (''SETOR'', PyStr ''TI''),
                      (''DT_NASCIMENTO'', PyDate \<lparr>year = 1990, month = 5, day = 17\<rparr>),
                      (''SEXO'', PyInt 2),
                      (''DT_INICIO_ATESTADO'', PyDate \<lparr>year = 2024, month = 3, day = 4\<rparr>),
                      (''MATRICULA_FUNC'', PyStr ''M7''), (''TIPO_ATESTADO'', PyInt 2)];
       unmatched = map_of [(''EMPRESA'', PyInt 3), (''UNIDADE'', PyStr ''Matriz''),
                      (''SETOR'', PyStr ''RH''),
                      (''DT_NASCIMENTO'', PyDate \<lparr>year = 1990, month = 5, day = 17\<rparr>),
                      (''SEXO'', PyInt 2),
                      (''DT_INICIO_ATESTADO'', PyDate \<lparr>year = 2024, month = 3, day = 4\<rparr>),
                      (''MATRICULA_FUNC'', PyStr ''M7''), (''TIPO_ATESTADO'', PyInt 2)];
       bad = map_of [(''EMPRESA'', PyInt 3), (''SETOR'', PyStr ''TI''),
                     (''DT_NASCIMENTO'', PyDate \<lparr>year = 1990, month = 5, day = 17\<rparr>),
                     (''SEXO'', PyInt 2)]
   in fst (load_absenteismo db [unmatched, good]) = None \<and>
      snd (snd (load_absenteismo db [unmatched, good])) = [unmatched] \<and>
      map (\<lambda>row. (FatoAbsenteismo.sk_funcionario (snd row),
                   FatoAbsenteismo.sk_tempo_inicio (snd row)))
          (fato_absenteismo (fst (snd (load_absenteismo db [unmatched, good])))) =
        [(5, Some 9)] \<and>
      map_option fst (find_funcionario db good) = Some 5 \<and>
      list_ex (\<lambda>r. \<not> has_keys r [''UNIDADE'', ''SETOR'', ''DT_NASCIMENTO'', ''SEXO''])
        [good, bad] \<and>
      fst (load_absenteismo db [good, bad]) \<noteq> None \<and>
      fst (snd (load_absenteismo db [good, bad])) = db"
proof -
  let ?db = "\<lparr>dim_empresa = [PyInt 3],
             dim_funcionario =
               [(4, \<lparr>DimFuncionario.codigo_funcionario = PyInt 7,
                     DimFuncionario.codigo_empresa = PyInt 3,
                     DimFuncionario.nome = PyStr ''Ana'',
                     DimFuncionario.cpf = PyStr ''11144477735'',
                     DimFuncionario.data_nascimento = Some \<lparr>year = 1990, month = 5, day = 17\<rparr>,
                     DimFuncionario.sexo = PyInt 2,
                     DimFuncionario.matricula_funcionario = PyStr ''M7'',
                     DimFuncionario.situacao = PyStr ''Ativo'',
                     DimFuncionario.data_admissao = Some \<lparr>year = 2020, month = 3, day = 2\<rparr>,
                     DimFuncionario.data_demissao = None,
                     DimFuncionario.nome_unidade = PyStr ''Matriz'',
                     DimFuncionario.nome_setor = PyStr ''TI'',
                     DimFuncionario.data_inicio_validade = 10,
                     DimFuncionario.data_fim_validade = Some 20,
                     DimFuncionario.registro_ativo = False\<rparr>),
                (5, \<lparr>DimFuncionario.codigo_funcionario = PyInt 7,
                     DimFuncionario.codigo_empresa = PyInt 3,
                     DimFuncionario.nome = PyStr ''Ana'',
                     DimFuncionario.cpf = PyStr ''11144477735'',
                     DimFuncionario.data_nascimento = Some \<lparr>year = 1990, month = 5, day = 17\<rparr>,
                     DimFuncionario.sexo = PyInt 2,
                     DimFuncionario.matricula_funcionario = PyStr ''M7'',
                     DimFuncionario.situacao = PyStr ''Ativo'',
                     DimFuncionario.data_admissao = Some \<lparr>year = 2020, month = 3, day = 2\<rparr>,
                     DimFuncionario.data_demissao = None,
                     DimFuncionario.nome_unidade = PyStr ''Matriz'',
                     DimFuncionario.nome_setor = PyStr ''TI'',
                     DimFuncionario.data_inicio_validade = 20,
                     DimFuncionario.data_fim_validade = None,
                     DimFuncionario.registro_ativo = True\<rparr>)],
             dim_tempo = [(9, tempo_record \<lparr>year = 2024, month = 3, day = 4\<rparr>)],
             fato_absenteismo = []\<rparr>"
  let ?good = "map_of [(''EMPRESA'', PyInt 3), (''UNIDADE'', PyStr ''Matriz''),
                      (''SETOR'', PyStr ''TI''),
                      (''DT_NASCIMENTO'', PyDate \<lparr>year = 1990, month = 5, day = 17\<rparr>),
                      (''SEXO'', PyInt 2),
                      (''DT_INICIO_ATESTADO'', PyDate \<lparr>year = 2024, month = 3, day = 4\<rparr>),
                      (''MATRICULA_FUNC'', PyStr ''M7''), (''TIPO_ATESTADO'', PyInt 2)]"
  let ?unmatched = "map_of [(''EMPRESA'', PyInt 3), (''UNIDADE'', PyStr ''Matriz''),
                      (''SETOR'', PyStr ''RH''),
                      (''DT_NASCIMENTO'', PyDate \<lparr>year = 1990, month = 5, day = 17\<rparr>),
                      (''SEXO'', PyInt 2),
                      (''DT_INICIO_ATESTADO'', PyDate \<lparr>year = 2024, month = 3, day = 4\<rparr>),
                      (''MATRICULA_FUNC'', PyStr ''M7''), (''TIPO_ATESTADO'', PyInt 2)]"
  let ?bad = "map_of [(''EMPRESA'', PyInt 3), (''SETOR'', PyStr ''TI''),
                     (''DT_NASCIMENTO'', PyDate \<lparr>year = 1990, month = 5, day = 17\<rparr>),
                     (''SEXO'', PyInt 2)]"
  have ok: "fst (load_absenteismo ?db [?unmatched, ?good]) = None"
    by (simp add: abs_eval Let_def upt_1_2)
  have find_good: "map_option fst (find_funcionario ?db ?good) = Some 5"
    by (simp add: abs_eval)
  have find_unmatched: "find_funcionario ?db ?unmatched = None"
    by (simp add: abs_eval)
  have find_good_ne: "find_funcionario ?db ?good \<noteq> None"
    by (simp add: abs_eval)
  have bad: "list_ex (\<lambda>r. \<not> has_keys r [''UNIDADE'', ''SETOR'', ''DT_NASCIMENTO'', ''SEXO''])
        [?good, ?bad]"
    by (simp add: has_keys_def)
  have tempo: "map (\<lambda>row. (FatoAbsenteismo.sk_funcionario (snd row),
                   FatoAbsenteismo.sk_tempo_inicio (snd row)))
          (fato_absenteismo (fst (snd (load_absenteismo ?db [?unmatched, ?good])))) =
        [(5, Some 9)]"
    by (simp add: abs_eval Let_def upt_1_2)
  from load_absenteismo_outcomes [of ?db "[?unmatched, ?good]"] ok find_unmatched find_good_ne
  have log: "snd (snd (load_absenteismo ?db [?unmatched, ?good])) = [?unmatched]"
    by simp
  from load_absenteismo_outcomes [of ?db "[?good, ?bad]"] bad
  have raised: "fst (load_absenteismo ?db [?good, ?bad]) \<noteq> None"
    and rolled_back: "fst (snd (load_absenteismo ?db [?good, ?bad])) = ?db"
    by blast+
  show ?thesis
    unfolding Let_def using ok log tempo find_good bad raised rolled_back by blast
qed

end
